theory Spec2Isabelle
  imports Main
begin

section \<open>The collaborators: net/http, httptest, bytes, log/slog\<close>

text \<open>
  The two packages of the repository (\<open>middleware\<close> and \<open>messages\<close>) are written against
  interfaces of the Go standard library. This section fixes the part of those interfaces
  the packages call: header maps, the response writers the tests use, \<open>bytes.Buffer\<close>,
  \<open>http.Error\<close> and the structured logger. Every Go object that is mutated through a
  pointer is a value that the model passes in and returns updated.
\<close>

subsection \<open>Header maps\<close>

text \<open>
  \<open>http.Header\<close> is \<open>map[string][]string\<close>. \<open>Add\<close>, \<open>Set\<close>, \<open>Del\<close> and \<open>Get\<close>
  canonicalise the key first (\<open>textproto.CanonicalMIMEHeaderKey\<close>): a key made of token
  bytes only gets an upper-case letter at its start and after each dash and lower-case
  letters elsewhere; any other key is left as it is.
\<close>

type_synonym http_Header = "string \<rightharpoonup> string list"

definition lowerLetters :: string where
  "lowerLetters = ''abcdefghijklmnopqrstuvwxyz''"

definition upperLetters :: string where
  "upperLetters = ''ABCDEFGHIJKLMNOPQRSTUVWXYZ''"

definition validHeaderFieldByte :: "char \<Rightarrow> bool" where
  "validHeaderFieldByte c =
     (c \<in> set lowerLetters \<or> c \<in> set upperLetters \<or> c \<in> set ''0123456789'' \<or>
      c \<in> set ''!#$%&*+-.^_|~'' \<or> c = CHR 0x27 \<or> c = CHR 0x60)"

definition toUpper :: "char \<Rightarrow> char" where
  "toUpper c = (case map_of (zip lowerLetters upperLetters) c of Some u \<Rightarrow> u | None \<Rightarrow> c)"

definition toLower :: "char \<Rightarrow> char" where
  "toLower c = (case map_of (zip upperLetters lowerLetters) c of Some l \<Rightarrow> l | None \<Rightarrow> c)"

fun canonicalMIMEHeaderKey :: "bool \<Rightarrow> string \<Rightarrow> string" where
  "canonicalMIMEHeaderKey upper [] = []"
| "canonicalMIMEHeaderKey upper (c # cs) =
     (let c' = (if upper then toUpper c else toLower c)
      in c' # canonicalMIMEHeaderKey (c' = CHR ''-'') cs)"

definition CanonicalMIMEHeaderKey :: "string \<Rightarrow> string" where
  "CanonicalMIMEHeaderKey s =
     (if list_all validHeaderFieldByte s then canonicalMIMEHeaderKey True s else s)"

definition Header_Add :: "string \<Rightarrow> string \<Rightarrow> http_Header \<Rightarrow> http_Header" where
  "Header_Add key val h =
     (let k = CanonicalMIMEHeaderKey key
      in h(k \<mapsto> (case h k of None \<Rightarrow> [] | Some vs \<Rightarrow> vs) @ [val]))"

definition Header_Set :: "string \<Rightarrow> string \<Rightarrow> http_Header \<Rightarrow> http_Header" where
  "Header_Set key val h = h(CanonicalMIMEHeaderKey key \<mapsto> [val])"

definition Header_Del :: "string \<Rightarrow> http_Header \<Rightarrow> http_Header" where
  "Header_Del key h = h(CanonicalMIMEHeaderKey key := None)"

definition Header_Get :: "string \<Rightarrow> http_Header \<Rightarrow> string" where
  "Header_Get key h =
     (case h (CanonicalMIMEHeaderKey key) of
        None \<Rightarrow> []
      | Some [] \<Rightarrow> []
      | Some (v # vs) \<Rightarrow> v)"

subsection \<open>Requests\<close>

text \<open>
  The fields of \<open>*http.Request\<close> that the packages read. \<open>URL_RequestURI\<close> is
  \<open>(*url.URL).RequestURI\<close> for a URL with no opaque part and no forced query: the path
  (\<open>/\<close> when empty) followed by \<open>?\<close> and the raw query when there is one.
\<close>

record url =
  Path :: string
  RawQuery :: string

record request =
  Method :: string
  URL :: url
  Proto :: string
  RemoteAddr :: string
  Header :: http_Header

definition URL_RequestURI :: "url \<Rightarrow> string" where
  "URL_RequestURI u =
     (if Path u = [] then ''/'' else Path u) @
     (if RawQuery u \<noteq> [] then ''?'' @ RawQuery u else [])"

subsection \<open>The structured logger and the rest of the world\<close>

text \<open>
  A \<open>*slog.Logger\<close> is known by where its records go: the process-wide default, or a
  logger made with \<open>slog.New\<close>, numbered. A call of \<open>Info\<close> or \<open>Error\<close> appends one record
  to the log of the world; the record remembers the logger it was given to. The world also
  holds the clock that \<open>time.Now\<close> reads and the text that \<open>debug.Stack\<close> returns.
\<close>

datatype slog_Value =
    StringValue string
  | IntValue int
  | DurationValue int
  | AnyValue "string list"

datatype slog_Level = LevelInfo | LevelError

datatype slog_Logger = slog_Default | slog_New nat

record slog_Record =
  logger :: slog_Logger
  level :: slog_Level
  message :: string
  attrs :: "(string \<times> slog_Value) list"

record world =
  logs :: "slog_Record list"
  clock :: int
  goroutine_stack :: string

definition Logger_Info ::
  "slog_Logger \<Rightarrow> string \<Rightarrow> (string \<times> slog_Value) list \<Rightarrow> world \<Rightarrow> world" where
  "Logger_Info l m as env =
     env\<lparr>logs := logs env @ [\<lparr>logger = l, level = LevelInfo, message = m, attrs = as\<rparr>]\<rparr>"

definition Logger_Error ::
  "slog_Logger \<Rightarrow> string \<Rightarrow> (string \<times> slog_Value) list \<Rightarrow> world \<Rightarrow> world" where
  "Logger_Error l m as env =
     env\<lparr>logs := logs env @ [\<lparr>logger = l, level = LevelError, message = m, attrs = as\<rparr>]\<rparr>"

subsection \<open>Response writers\<close>

text \<open>
  \<open>httptest.ResponseRecorder\<close> stands for the transport: it keeps the header map, the
  status code the client sees (\<open>Code\<close>, 200 until a status is committed), the body bytes
  and the headers as they were when the status was committed. \<open>WriteHeader\<close> commits the
  status once; a later call leaves the recorder as it is; a code outside 100..999 panics.
  \<open>Write\<close> commits status 200 first when none is committed.
  The field \<open>headerCalls\<close> is not a field of the Go struct: it lists the codes of all
  calls of \<open>WriteHeader\<close> the recorder has received, so that the number of status commits
  a handler asks for can be stated. Content-type sniffing in \<open>Write\<close> is left out.
\<close>

record ResponseRecorder =
  Code :: int
  HeaderMap :: http_Header
  Body :: string
  snapHeader :: "http_Header option"
  wroteHeader :: bool
  headerCalls :: "int list"

definition NewRecorder :: ResponseRecorder where
  "NewRecorder =
     \<lparr>Code = 200, HeaderMap = Map.empty, Body = [], snapHeader = None,
      wroteHeader = False, headerCalls = []\<rparr>"

datatype outcome = Returned | Panicked string

function Itoa_nat :: "nat \<Rightarrow> string" where
  "Itoa_nat n =
     (if n < 10 then [''0123456789'' ! n]
      else Itoa_nat (n div 10) @ [''0123456789'' ! (n mod 10)])"
  by pat_completeness auto
termination
  by (relation "measure (\<lambda>n. n)") auto

definition Itoa :: "int \<Rightarrow> string" where
  "Itoa i = (if i < 0 then CHR ''-'' # Itoa_nat (nat (- i)) else Itoa_nat (nat i))"

definition ResponseRecorder_WriteHeader ::
  "int \<Rightarrow> ResponseRecorder \<Rightarrow> outcome \<times> ResponseRecorder" where
  "ResponseRecorder_WriteHeader code rw0 =
     (let rw = rw0\<lparr>headerCalls := headerCalls rw0 @ [code]\<rparr>
      in if wroteHeader rw then (Returned, rw)
         else if code < 100 \<or> code > 999
           then (Panicked (''invalid WriteHeader code '' @ Itoa code), rw)
         else (Returned,
               rw\<lparr>Code := code, wroteHeader := True, snapHeader := Some (HeaderMap rw)\<rparr>))"

definition ResponseRecorder_Write ::
  "ResponseRecorder \<Rightarrow> string \<Rightarrow> ResponseRecorder \<times> nat \<times> string option" where
  "ResponseRecorder_Write rw0 buf =
     (let rw = (if wroteHeader rw0 then rw0 else snd (ResponseRecorder_WriteHeader 200 rw0))
      in (rw\<lparr>Body := Body rw @ buf\<rparr>, length buf, None))"

text \<open>
  The three implementations of \<open>http.ResponseWriter\<close> in the repository and its tests:
  the recorder, \<open>errorResponseWriter\<close> of the tests of package \<open>messages\<close> (it embeds a
  writer and overrides \<open>Write\<close> to fail), and \<open>captureWriter\<close> of package \<open>middleware\<close>
  (it embeds a writer, holds the field \<open>status\<close> and overrides \<open>WriteHeader\<close>).
  A method that a wrapper does not override is promoted from the embedded writer.
\<close>

datatype writer =
    Recorder ResponseRecorder
  | errorResponseWriter writer
  | captureWriter writer int

fun recorder_of :: "writer \<Rightarrow> ResponseRecorder" where
  "recorder_of (Recorder rw) = rw"
| "recorder_of (errorResponseWriter w) = recorder_of w"
| "recorder_of (captureWriter w st) = recorder_of w"

fun captureWriter_ResponseWriter :: "writer \<Rightarrow> writer" where
  "captureWriter_ResponseWriter (captureWriter w st) = w"
| "captureWriter_ResponseWriter w = w"

fun captureWriter_status :: "writer \<Rightarrow> int" where
  "captureWriter_status (captureWriter w st) = st"
| "captureWriter_status w = 0"

text \<open>\<open>w.Header()\<close> hands out the header map of the recorder underneath; \<open>Header_apply f\<close>
  is a call of a mutating method \<open>f\<close> on that map.\<close>

fun Header_apply :: "(http_Header \<Rightarrow> http_Header) \<Rightarrow> writer \<Rightarrow> writer" where
  "Header_apply f (Recorder rw) = Recorder (rw\<lparr>HeaderMap := f (HeaderMap rw)\<rparr>)"
| "Header_apply f (errorResponseWriter w) = errorResponseWriter (Header_apply f w)"
| "Header_apply f (captureWriter w st) = captureWriter (Header_apply f w) st"

text \<open>
  \<open>WriteHeader\<close>, by dynamic dispatch. The third equation is the method of the source:
  \<^verbatim>\<open>
  func (rw *captureWriter) WriteHeader(statusCode int) {
      if statusCode == 0 { // must mimic Go internals
          statusCode = http.StatusOK
      }
      rw.status = statusCode
      rw.ResponseWriter.WriteHeader(statusCode)
  }
  \<close>
  The field is assigned before the embedded writer is called, so it keeps the code also
  when that call panics.
\<close>

fun WriteHeader :: "int \<Rightarrow> writer \<Rightarrow> outcome \<times> writer" where
  "WriteHeader code (Recorder rw) =
     (case ResponseRecorder_WriteHeader code rw of (out, rw') \<Rightarrow> (out, Recorder rw'))"
| "WriteHeader code (errorResponseWriter w) =
     (case WriteHeader code w of (out, w') \<Rightarrow> (out, errorResponseWriter w'))"
| "WriteHeader statusCode (captureWriter w st) =
     (let statusCode' = (if statusCode = 0 then 200 else statusCode)
      in case WriteHeader statusCode' w of (out, w') \<Rightarrow> (out, captureWriter w' statusCode'))"

text \<open>
  \<open>Write\<close>, by dynamic dispatch. \<open>errorResponseWriter\<close> is
  \<^verbatim>\<open>
  func (rw *errorResponseWriter) Write(p []byte) (int, error) {
      return 0, fmt.Errorf("write failure")
  }
  \<close>
  and \<open>captureWriter\<close> has no \<open>Write\<close> of its own: the call goes to the embedded writer
  and leaves the field \<open>status\<close> alone.
\<close>

fun Write :: "writer \<Rightarrow> string \<Rightarrow> writer \<times> nat \<times> string option" where
  "Write (Recorder rw) p =
     (case ResponseRecorder_Write rw p of (rw', n, err) \<Rightarrow> (Recorder rw', n, err))"
| "Write (errorResponseWriter w) p = (errorResponseWriter w, 0, Some ''write failure'')"
| "Write (captureWriter w st) p =
     (case Write w p of (w', n, err) \<Rightarrow> (captureWriter w' st, n, err))"

subsection \<open>bytes.Buffer, fmt.Fprintln, strings.Split and http.Error\<close>

text \<open>
  A \<open>bytes.Buffer\<close> is the bytes it holds. \<open>Buffer_Write\<close> never fails. \<open>Buffer_WriteTo\<close>
  hands a non-empty buffer to the writer in one call of \<open>Write\<close> and reports the writer's
  error, or \<open>io.ErrShortWrite\<close> when fewer bytes were taken; an empty buffer makes no call.
\<close>

type_synonym bytes_Buffer = string

definition Buffer_Write :: "bytes_Buffer \<Rightarrow> string \<Rightarrow> bytes_Buffer \<times> nat \<times> string option" where
  "Buffer_Write b p = (b @ p, length p, None)"

definition Buffer_WriteTo :: "bytes_Buffer \<Rightarrow> writer \<Rightarrow> writer \<times> string option" where
  "Buffer_WriteTo b w =
     (if length b > 0
      then (case Write w b of
              (w', m, Some e) \<Rightarrow> (w', Some e)
            | (w', m, None) \<Rightarrow> if m \<noteq> length b then (w', Some ''short write'') else (w', None))
      else (w, None))"

definition newline :: char where
  "newline = CHR ''\<newline>''"

definition fmt_Fprintln :: "writer \<Rightarrow> string \<Rightarrow> writer \<times> nat \<times> string option" where
  "fmt_Fprintln w s = Write w (s @ [newline])"

fun strings_Split :: "string \<Rightarrow> char \<Rightarrow> string list" where
  "strings_Split [] sep = [[]]"
| "strings_Split (c # cs) sep =
     (if c = sep then [] # strings_Split cs sep
      else (case strings_Split cs sep of
              [] \<Rightarrow> [[c]]
            | l # ls \<Rightarrow> (c # l) # ls))"

definition StatusInternalServerError :: int where
  "StatusInternalServerError = 500"

text \<open>The value of \<open>http.StatusText(http.StatusInternalServerError)\<close>.\<close>

definition StatusText_InternalServerError :: string where
  "StatusText_InternalServerError = ''Internal Server Error''"

text \<open>
  \<^verbatim>\<open>
  func Error(w ResponseWriter, error string, code int) {
      h := w.Header()
      h.Del("Content-Length")
      h.Set("Content-Type", "text/plain; charset=utf-8")
      h.Set("X-Content-Type-Options", "nosniff")
      w.WriteHeader(code)
      fmt.Fprintln(w, error)
  }
  \<close>
\<close>

definition http_Error :: "writer \<Rightarrow> string \<Rightarrow> int \<Rightarrow> outcome \<times> writer" where
  "http_Error w err code =
     (let w1 = Header_apply (Header_Del ''Content-Length'') w;
          w2 = Header_apply (Header_Set ''Content-Type'' ''text/plain; charset=utf-8'') w1;
          w3 = Header_apply (Header_Set ''X-Content-Type-Options'' ''nosniff'') w2
      in case WriteHeader code w3 of
           (Panicked v, w4) \<Rightarrow> (Panicked v, w4)
         | (Returned, w4) \<Rightarrow> (Returned, fst (fmt_Fprintln w4 err)))"

section \<open>Package messages\<close>

subsection \<open>Response, ResponseHandlerFunc, Responder\<close>

text \<open>
  \<open>WriteBody\<close> is a Go function \<open>func(io.Writer) error\<close>. All it can do with its argument
  is call \<open>Write\<close> and look at what each call returns, so a body procedure is the tree
  of its calls: \<open>BodyReturn err\<close> returns (\<open>None\<close> for a nil error, \<open>Some s\<close> for an
  error with text \<open>s\<close>), and \<open>BodyWrite p k\<close> writes \<open>p\<close> and goes on as \<open>k\<close> says for the
  count and the error of that call. \<open>run_body\<close> runs a procedure against a sink that is
  written with \<open>wr\<close>: the live writer, or a buffer.
\<close>

datatype body_proc =
    BodyReturn "string option"
  | BodyWrite string "nat \<times> string option \<Rightarrow> body_proc"

primrec run_body ::
  "('s \<Rightarrow> string \<Rightarrow> 's \<times> nat \<times> string option) \<Rightarrow> body_proc \<Rightarrow> 's \<Rightarrow> 's \<times> string option" where
  "run_body wr (BodyReturn err) = (\<lambda>s. (s, err))"
| "run_body wr (BodyWrite p k) =
     (\<lambda>s. case wr s p of (s', n, e) \<Rightarrow> run_body wr (k (n, e)) s')"

text \<open>
  \<open>Headers\<close> is a Go map; the model lists its entries in the order in which the
  \<open>range\<close> loop of the dispatcher visits them.
\<close>

record Response =
  Status :: int
  Headers :: "(string \<times> string list) list"
  WriteBody :: "body_proc option"

type_synonym ResponseHandlerFunc = "request \<Rightarrow> Response"

record Responder =
  Logger :: "slog_Logger option"
  Buffer :: bool

text \<open>
  \<^verbatim>\<open>
  func (re Responder) logger() *slog.Logger {
      if re.Logger == nil {
          return slog.Default()
      }
      return re.Logger
  }
  \<close>
\<close>

definition Responder_logger :: "Responder \<Rightarrow> slog_Logger" where
  "Responder_logger re = (case Logger re of None \<Rightarrow> slog_Default | Some l \<Rightarrow> l)"

subsection \<open>Handlers\<close>

text \<open>
  An \<open>http.Handler\<close> is run as \<open>ServeHTTP(w, r)\<close>: it changes the writer and the world,
  and it returns or panics. The writer it hands back is the same Go object, in its new
  state.
\<close>

type_synonym handler = "writer \<Rightarrow> request \<Rightarrow> world \<Rightarrow> outcome \<times> writer \<times> world"

type_synonym middleware = "handler \<Rightarrow> handler"

subsection \<open>The dispatcher: Responder.HandlerFunc\<close>

text \<open>
  The header loop of the dispatcher:
  \<^verbatim>\<open>
  for k, vals := range resp.Headers {
      for _, v := range vals {
          w.Header().Add(k, v)
      }
  }
  \<close>
\<close>

definition copy_headers :: "(string \<times> string list) list \<Rightarrow> writer \<Rightarrow> writer" where
  "copy_headers hs w =
     fold (\<lambda>(k, vals) w'. fold (\<lambda>v w''. Header_apply (Header_Add k v) w'') vals w') hs w"

definition invalid_status_attrs :: "request \<Rightarrow> (string \<times> slog_Value) list" where
  "invalid_status_attrs r =
     [(''method'', StringValue (Method r)), (''path'', StringValue (Path (URL r)))]"

definition write_error_attrs :: "request \<Rightarrow> string \<Rightarrow> (string \<times> slog_Value) list" where
  "write_error_attrs r err =
     [(''path'', StringValue (Path (URL r))), (''error'', StringValue err)]"

definition HandlerFunc :: "Responder \<Rightarrow> ResponseHandlerFunc \<Rightarrow> handler" where
  "HandlerFunc re fn = (\<lambda>w r env.
     let resp = fn r in
     if Status resp < 100 \<or> Status resp > 599 then
       (let env1 = Logger_Error (Responder_logger re)
                     ''Handler returned a Response with invalid status code''
                     (invalid_status_attrs r) env
        in case http_Error w StatusText_InternalServerError StatusInternalServerError of
             (out, w1) \<Rightarrow> (out, w1, env1))
     else
       let w1 = copy_headers (Headers resp) w in
       case WriteBody resp of
         None \<Rightarrow>
           (case WriteHeader (Status resp) w1 of (out, w2) \<Rightarrow> (out, w2, env))
       | Some body \<Rightarrow>
           if \<not> Buffer re then
             (case WriteHeader (Status resp) w1 of
                (Panicked v, w2) \<Rightarrow> (Panicked v, w2, env)
              | (Returned, w2) \<Rightarrow>
                  (case run_body Write body w2 of
                     (w3, Some err) \<Rightarrow>
                       (Returned, w3,
                        Logger_Error (Responder_logger re) ''Error streaming response body''
                          (write_error_attrs r err) env)
                   | (w3, None) \<Rightarrow> (Returned, w3, env)))
           else
             (case run_body Buffer_Write body [] of
                (buf, Some err) \<Rightarrow>
                  (let env1 = Logger_Error (Responder_logger re) ''Error buffering response body''
                                (write_error_attrs r err) env
                   in case http_Error w1 StatusText_InternalServerError
                             StatusInternalServerError of
                        (out, w2) \<Rightarrow> (out, w2, env1))
              | (buf, None) \<Rightarrow>
                  (case WriteHeader (Status resp) w1 of
                     (Panicked v, w2) \<Rightarrow> (Panicked v, w2, env)
                   | (Returned, w2) \<Rightarrow>
                       (case Buffer_WriteTo buf w2 of
                          (w3, Some err) \<Rightarrow>
                            (Returned, w3,
                             Logger_Error (Responder_logger re)
                               ''Error flushing buffered response''
                               (write_error_attrs r err) env)
                        | (w3, None) \<Rightarrow> (Returned, w3, env)))))"

section \<open>Package middleware\<close>

subsection \<open>Queue and Stack\<close>

text \<open>
  \<^verbatim>\<open>
  func Queue(ms ...func(http.Handler) http.Handler) func(http.Handler) http.Handler {
      return func(h http.Handler) http.Handler {
          for i := range ms {
              h = ms[i](h)
          }
          return h
      }
  }
  func Stack(ms ...func(http.Handler) http.Handler) func(http.Handler) http.Handler {
      return func(h http.Handler) http.Handler {
          for i := range ms {
              h = ms[len(ms)-1-i](h)
          }
          return h
      }
  }
  \<close>
  The loops run \<open>i\<close> over \<open>0, ..., len(ms) - 1\<close>; both index expressions stay in range.
\<close>

definition Queue :: "middleware list \<Rightarrow> middleware" where
  "Queue ms = (\<lambda>h. fold (\<lambda>i h'. (ms ! i) h') [0..<length ms] h)"

definition Stack :: "middleware list \<Rightarrow> middleware" where
  "Stack ms = (\<lambda>h. fold (\<lambda>i h'. (ms ! (length ms - 1 - i)) h') [0..<length ms] h)"

subsection \<open>AccessLogger\<close>

text \<open>
  \<^verbatim>\<open>
  start := time.Now()
  rw := &captureWriter{ResponseWriter: w}
  h.ServeHTTP(rw, r)
  logger.Info(prefix, slog.String("src", r.RemoteAddr), ...,
      slog.Int("status", rw.status), ...,
      slog.Duration("duration", time.Since(start)))
  \<close>
  The capture writer starts with the zero value in \<open>status\<close>. Nothing is deferred: when
  the wrapped handler panics, the panic goes on and no record is written.
\<close>

definition access_attrs :: "request \<Rightarrow> int \<Rightarrow> int \<Rightarrow> (string \<times> slog_Value) list" where
  "access_attrs r st elapsed =
     [(''src'', StringValue (RemoteAddr r)),
      (''method'', StringValue (Method r)),
      (''dest'', StringValue (URL_RequestURI (URL r))),
      (''proto'', StringValue (Proto r)),
      (''status'', IntValue st),
      (''user-agent'', StringValue (Header_Get ''User-Agent'' (Header r))),
      (''duration'', DurationValue elapsed)]"

definition AccessLogger :: "slog_Logger option \<Rightarrow> string \<Rightarrow> middleware" where
  "AccessLogger logger0 prefix =
     (let logger = (case logger0 of None \<Rightarrow> slog_Default | Some l \<Rightarrow> l)
      in (\<lambda>h w r env.
            let start = clock env;
                rw = captureWriter w 0
            in case h rw r env of
                 (Panicked v, rw', env') \<Rightarrow> (Panicked v, captureWriter_ResponseWriter rw', env')
               | (Returned, rw', env') \<Rightarrow>
                   (Returned, captureWriter_ResponseWriter rw',
                    Logger_Info logger prefix
                      (access_attrs r (captureWriter_status rw') (clock env' - start)) env')))"

subsection \<open>RecoverAndHandle\<close>

text \<open>
  \<^verbatim>\<open>
  defer func() {
      if rec := recover(); rec != nil {
          logger.Error("PANIC caught by middleware.PanicBroker",
              slog.String("error", fmt.Sprintf("%v", rec)),
              slog.Any("stack", strings.Split(string(debug.Stack()), "\n")),
          )
          fallback.ServeHTTP(w, r)
      }
  }()
  h.ServeHTTP(w, r)
  \<close>
  \<open>Panicked v\<close> carries the text \<open>fmt.Sprintf("%v", rec)\<close> of the panic value. With the Go
  versions the repository builds with (1.21 and later) \<open>recover\<close> returns a non-nil value
  for every panic. A panic of the fallback handler is not recovered.
\<close>

definition panic_attrs :: "string \<Rightarrow> world \<Rightarrow> (string \<times> slog_Value) list" where
  "panic_attrs v env =
     [(''error'', StringValue v),
      (''stack'', AnyValue (strings_Split (goroutine_stack env) newline))]"

definition RecoverAndHandle :: "handler \<Rightarrow> slog_Logger option \<Rightarrow> middleware" where
  "RecoverAndHandle fallback logger0 =
     (let logger = (case logger0 of None \<Rightarrow> slog_Default | Some l \<Rightarrow> l)
      in (\<lambda>h w r env.
            case h w r env of
              (Returned, w', env') \<Rightarrow> (Returned, w', env')
            | (Panicked v, w', env') \<Rightarrow>
                fallback w' r
                  (Logger_Error logger ''PANIC caught by middleware.PanicBroker''
                     (panic_attrs v env') env')))"

section \<open>The handlers and requests of the tests\<close>

text \<open>
  \<open>httptest.NewRequest(method, target, nil)\<close> for a target that is a path with an
  optional query.
\<close>

definition NewRequest :: "string \<Rightarrow> string \<Rightarrow> string \<Rightarrow> request" where
  "NewRequest m path query =
     \<lparr>Method = m, URL = \<lparr>Path = path, RawQuery = query\<rparr>, Proto = ''HTTP/1.1'',
      RemoteAddr = ''192.0.2.1:1234'', Header = Map.empty\<rparr>"

definition world0 :: world where
  "world0 = \<lparr>logs = [], clock = 0, goroutine_stack = []\<rparr>"

text \<open>The core handler and the middleware \<open>sign\<close> of \<open>TestQueueAndStack\<close>: both write
  to \<open>w\<close> and ignore what \<open>Write\<close> returns.\<close>

definition write_handler :: "string \<Rightarrow> handler" where
  "write_handler s = (\<lambda>w r env. (Returned, fst (Write w s), env))"

definition sign :: "string \<Rightarrow> middleware" where
  "sign msg = (\<lambda>h w r env. h (fst (Write w msg)) r env)"

text \<open>The handlers of \<open>TestRecoverAndHandle\<close>: one that panics before it writes, and the
  fallback, which sends status 500 and a body.\<close>

definition panic_handler :: "string \<Rightarrow> handler" where
  "panic_handler v = (\<lambda>w r env. (Panicked v, w, env))"

definition status_handler :: "int \<Rightarrow> string \<Rightarrow> handler" where
  "status_handler code s = (\<lambda>w r env.
     case WriteHeader code w of
       (Panicked v, w1) \<Rightarrow> (Panicked v, w1, env)
     | (Returned, w1) \<Rightarrow> (Returned, fst (Write w1 s), env))"

text \<open>The response handlers of \<open>TestResponder_HandlerFunc\<close>.\<close>

definition simpleResponseHandlerFunc :: ResponseHandlerFunc where
  "simpleResponseHandlerFunc r =
     \<lparr>Status = 200,
      Headers = [(''Content-Type'', [''text/plain; charset=utf-8''])],
      WriteBody = Some (BodyWrite ''hello, world'' (\<lambda>(n, err). BodyReturn err))\<rparr>"

definition erroredResponseHandlerFunc :: ResponseHandlerFunc where
  "erroredResponseHandlerFunc r =
     \<lparr>Status = 200,
      Headers = [(''Content-Type'', [''text/plain; charset=utf-8''])],
      WriteBody = Some (BodyReturn (Some ''fail on purpose''))\<rparr>"


section \<open>Vocabulary of the properties\<close>

text \<open>
  The definitions of this section are not code of the repository. They name what the
  properties below talk about: the state of the recorder underneath a stack of writers,
  the headers a handler leaves behind, the path the dispatcher takes, and the handlers
  and responders of the test files that serve as concrete inputs.
\<close>

text \<open>
  \<open>write_fails w\<close>: a call of \<open>Write\<close> on \<open>w\<close> reaches an \<open>errorResponseWriter\<close>
  before it reaches the recorder, so it fails and writes nothing.
\<close>

fun write_fails :: "writer \<Rightarrow> bool" where
  "write_fails (Recorder rw) = False"
| "write_fails (errorResponseWriter w) = True"
| "write_fails (captureWriter w st) = write_fails w"

text \<open>
  What the header loop of the dispatcher does to a header map, and what \<open>http.Error\<close>
  does to it.
\<close>

definition Header_AddAll :: "(string \<times> string list) list \<Rightarrow> http_Header \<Rightarrow> http_Header" where
  "Header_AddAll hs h = fold (\<lambda>(k, vals) h'. fold (\<lambda>v h''. Header_Add k v h'') vals h') hs h"

definition error_headers :: "http_Header \<Rightarrow> http_Header" where
  "error_headers h =
     Header_Set ''X-Content-Type-Options'' ''nosniff''
       (Header_Set ''Content-Type'' ''text/plain; charset=utf-8''
          (Header_Del ''Content-Length'' h))"

text \<open>
  \<open>strings.Contains\<close>, and \<open>strings.Join\<close> with a one-byte separator.
\<close>

fun strings_Contains :: "string \<Rightarrow> string \<Rightarrow> bool" where
  "strings_Contains [] sub = (sub = [])"
| "strings_Contains (c # cs) sub = (take (length sub) (c # cs) = sub \<or> strings_Contains cs sub)"

fun strings_Join :: "string list \<Rightarrow> char \<Rightarrow> string" where
  "strings_Join [] sep = []"
| "strings_Join [x] sep = x"
| "strings_Join (x # y # ys) sep = x @ sep # strings_Join (y # ys) sep"

text \<open>
  The logger a middleware uses for a given argument: \<open>slog.Default()\<close> for nil.
\<close>

definition resolve_logger :: "slog_Logger option \<Rightarrow> slog_Logger" where
  "resolve_logger l = (case l of None \<Rightarrow> slog_Default | Some x \<Rightarrow> x)"

text \<open>
  The body the client has received once a handler has run.
\<close>

definition served_body :: "handler \<Rightarrow> writer \<Rightarrow> request \<Rightarrow> world \<Rightarrow> string" where
  "served_body h w r env = Body (recorder_of (fst (snd (h w r env))))"

text \<open>
  The seven ways through \<open>HandlerFunc\<close>, the path a request takes, the paths that
  log, and the status code each path passes to \<open>WriteHeader\<close>.
\<close>

datatype path =
    InvalidStatus
  | NilBody
  | StreamOK
  | StreamFail
  | BufferedOK
  | BufferFail
  | FlushFail

definition path_of :: "Responder \<Rightarrow> Response \<Rightarrow> writer \<Rightarrow> path" where
  "path_of re resp w =
     (if Status resp < 100 \<or> Status resp > 599 then InvalidStatus
      else case WriteBody resp of
             None \<Rightarrow> NilBody
           | Some body \<Rightarrow>
               (let wcom = snd (WriteHeader (Status resp) (copy_headers (Headers resp) w))
                in if \<not> Buffer re
                   then (case snd (run_body Write body wcom) of
                           None \<Rightarrow> StreamOK
                         | Some err \<Rightarrow> StreamFail)
                   else (case run_body Buffer_Write body [] of
                           (buf, Some err) \<Rightarrow> BufferFail
                         | (buf, None) \<Rightarrow>
                             (case snd (Buffer_WriteTo buf wcom) of
                                None \<Rightarrow> BufferedOK
                              | Some err \<Rightarrow> FlushFail))))"

fun error_path :: "path \<Rightarrow> bool" where
  "error_path InvalidStatus = True"
| "error_path StreamFail = True"
| "error_path BufferFail = True"
| "error_path FlushFail = True"
| "error_path p = False"

fun committed_status :: "path \<Rightarrow> Response \<Rightarrow> int" where
  "committed_status InvalidStatus resp = 500"
| "committed_status BufferFail resp = 500"
| "committed_status p resp = Status resp"

text \<open>
  The responder and two more response handlers of \<open>TestResponder_HandlerFunc\<close>
  (the cases "err - invalid status" and "ok - body nil"), and a handler that
  commits a status, writes and then panics.
\<close>

definition test_responder :: "bool \<Rightarrow> Responder" where
  "test_responder b = \<lparr>Logger = Some (slog_New 0), Buffer = b\<rparr>"

definition invalidResponseHandlerFunc :: ResponseHandlerFunc where
  "invalidResponseHandlerFunc r = \<lparr>Status = 0, Headers = [], WriteBody = None\<rparr>"

definition noBodyResponseHandlerFunc :: ResponseHandlerFunc where
  "noBodyResponseHandlerFunc r =
     \<lparr>Status = 204, Headers = [(''X-Custom'', [''no body''])], WriteBody = None\<rparr>"

definition writing_panic_handler :: "int \<Rightarrow> string \<Rightarrow> string \<Rightarrow> handler" where
  "writing_panic_handler code s v = (\<lambda>w r env.
     case WriteHeader code w of
       (Panicked v', w1) \<Rightarrow> (Panicked v', w1, env)
     | (Returned, w1) \<Rightarrow> (Panicked v, fst (Write w1 s), env))"

section \<open>Properties of the writers\<close>

text \<open>
  A stack of wrappers hands header changes and status commits down to the recorder;
  body bytes reach it unless an \<open>errorResponseWriter\<close> is in the way.
\<close>

lemma recorder_of_Header_apply:
  "recorder_of (Header_apply f w) = (recorder_of w)\<lparr>HeaderMap := f (HeaderMap (recorder_of w))\<rparr>"
  by (induction w) simp_all

lemma write_fails_Header_apply: "write_fails (Header_apply f w) = write_fails w"
  by (induction w) simp_all

lemma WriteHeader_valid:
  "100 \<le> c \<Longrightarrow> c \<le> 999 \<Longrightarrow>
   fst (WriteHeader c w) = Returned \<and>
   recorder_of (snd (WriteHeader c w)) = snd (ResponseRecorder_WriteHeader c (recorder_of w)) \<and>
   write_fails (snd (WriteHeader c w)) = write_fails w"
  by (induction w) (auto simp: ResponseRecorder_WriteHeader_def Let_def split: prod.splits)

lemma WriteHeader_valid_eq:
  assumes "100 \<le> c" "c \<le> 999"
  shows "WriteHeader c w = (Returned, snd (WriteHeader c w))"
  using WriteHeader_valid [OF assms, of w] by (cases "WriteHeader c w") simp

lemma recorder_of_WriteHeader:
  assumes "100 \<le> c" "c \<le> 999"
  shows "recorder_of (snd (WriteHeader c w)) = snd (ResponseRecorder_WriteHeader c (recorder_of w))"
  using WriteHeader_valid [OF assms, of w] by simp

lemma write_fails_WriteHeader:
  assumes "100 \<le> c" "c \<le> 999"
  shows "write_fails (snd (WriteHeader c w)) = write_fails w"
  using WriteHeader_valid [OF assms, of w] by simp

lemma RR_WriteHeader_fresh:
  "\<not> wroteHeader rw \<Longrightarrow> 100 \<le> c \<Longrightarrow> c \<le> 999 \<Longrightarrow>
   ResponseRecorder_WriteHeader c rw =
     (Returned, rw\<lparr>Code := c, wroteHeader := True, snapHeader := Some (HeaderMap rw),
                   headerCalls := headerCalls rw @ [c]\<rparr>)"
  by (simp add: ResponseRecorder_WriteHeader_def Let_def)

lemma RR_WriteHeader_again:
  "wroteHeader rw \<Longrightarrow>
   ResponseRecorder_WriteHeader c rw = (Returned, rw\<lparr>headerCalls := headerCalls rw @ [c]\<rparr>)"
  by (simp add: ResponseRecorder_WriteHeader_def Let_def)

lemma RR_WriteHeader_calls:
  "headerCalls (snd (ResponseRecorder_WriteHeader c rw)) = headerCalls rw @ [c]"
  by (simp add: ResponseRecorder_WriteHeader_def Let_def)

lemma RR_WriteHeader_wrote:
  "100 \<le> c \<Longrightarrow> c \<le> 999 \<Longrightarrow> wroteHeader (snd (ResponseRecorder_WriteHeader c rw))"
  by (simp add: ResponseRecorder_WriteHeader_def Let_def)

lemma wroteHeader_WriteHeader:
  assumes "100 \<le> c" "c \<le> 999"
  shows "wroteHeader (recorder_of (snd (WriteHeader c w)))"
  using assms by (simp add: recorder_of_WriteHeader RR_WriteHeader_wrote)

lemma Write_fails:
  "write_fails w \<Longrightarrow> Write w p = (w, 0, Some ''write failure'')"
  by (induction w) (auto split: prod.splits)

lemma Write_ok:
  "\<not> write_fails w \<Longrightarrow>
   recorder_of (fst (Write w p)) = fst (ResponseRecorder_Write (recorder_of w) p) \<and>
   snd (Write w p) = (length p, None) \<and> \<not> write_fails (fst (Write w p))"
  by (induction w) (auto simp: ResponseRecorder_Write_def Let_def split: prod.splits)

lemma Write_committed:
  "wroteHeader (recorder_of w) \<Longrightarrow>
   recorder_of (fst (Write w p)) =
     (recorder_of w)\<lparr>Body := Body (recorder_of w) @ (if write_fails w then [] else p)\<rparr>"
  by (induction w) (auto simp: ResponseRecorder_Write_def Let_def split: prod.splits)

lemma Write_keeps_fails: "write_fails (fst (Write w p)) = write_fails w"
  by (induction w) (auto split: prod.splits)

lemma Write_Body:
  "Body (recorder_of (fst (Write w p))) =
     Body (recorder_of w) @ (if write_fails w then [] else p)"
  by (induction w)
     (auto simp: ResponseRecorder_Write_def ResponseRecorder_WriteHeader_def Let_def
           split: prod.splits)

lemma fold_Header_Add_recorder:
  "recorder_of (fold (\<lambda>v w''. Header_apply (Header_Add k v) w'') vals w) =
   (recorder_of w)\<lparr>HeaderMap := fold (\<lambda>v h''. Header_Add k v h'') vals (HeaderMap (recorder_of w))\<rparr>"
  by (induction vals arbitrary: w) (simp_all add: recorder_of_Header_apply)

lemma fold_Header_Add_fails:
  "write_fails (fold (\<lambda>v w''. Header_apply (Header_Add k v) w'') vals w) = write_fails w"
  by (induction vals arbitrary: w) (simp_all add: write_fails_Header_apply)

lemma recorder_of_copy_headers:
  "recorder_of (copy_headers hs w) =
   (recorder_of w)\<lparr>HeaderMap := Header_AddAll hs (HeaderMap (recorder_of w))\<rparr>"
  unfolding copy_headers_def Header_AddAll_def
  by (induction hs arbitrary: w) (simp_all add: fold_Header_Add_recorder split: prod.splits)

lemma write_fails_copy_headers: "write_fails (copy_headers hs w) = write_fails w"
  unfolding copy_headers_def
  by (induction hs arbitrary: w) (simp_all add: fold_Header_Add_fails split: prod.splits)

lemma commit_after_copy:
  assumes "\<not> wroteHeader (recorder_of w)" "100 \<le> c" "c \<le> 999"
  shows "recorder_of (snd (WriteHeader c (copy_headers hs w))) =
           (recorder_of w)
             \<lparr>Code := c,
              HeaderMap := Header_AddAll hs (HeaderMap (recorder_of w)),
              snapHeader := Some (Header_AddAll hs (HeaderMap (recorder_of w))),
              wroteHeader := True,
              headerCalls := headerCalls (recorder_of w) @ [c]\<rparr>"
  using assms
  by (simp add: recorder_of_WriteHeader recorder_of_copy_headers RR_WriteHeader_fresh)

lemma calls_after_commit:
  assumes "100 \<le> c" "c \<le> 999"
  shows "headerCalls (recorder_of (snd (WriteHeader c (copy_headers hs w)))) =
           headerCalls (recorder_of w) @ [c]"
  using assms
  by (simp add: recorder_of_WriteHeader recorder_of_copy_headers RR_WriteHeader_calls)

lemma write_fails_commit:
  "write_fails (snd (WriteHeader 200 (copy_headers hs w))) = write_fails w"
  by (simp add: write_fails_WriteHeader write_fails_copy_headers)

text \<open>
  Once a status is committed, a body procedure and a flush of the buffer change nothing
  of the recorder but its body, and only by appending.
\<close>

lemma run_body_committed:
  "wroteHeader (recorder_of w) \<Longrightarrow>
   (recorder_of (fst (run_body Write body w)))\<lparr>Body := []\<rparr> = (recorder_of w)\<lparr>Body := []\<rparr> \<and>
   take (length (Body (recorder_of w))) (Body (recorder_of (fst (run_body Write body w)))) = Body (recorder_of w)"
proof (induction body arbitrary: w)
  case (BodyReturn err)
  then show ?case by simp
next
  case (BodyWrite p k)
  obtain w' n e where wr: "Write w p = (w', n, e)" by (cases "Write w p") auto
  have rec: "recorder_of w' = (recorder_of w)\<lparr>Body := Body (recorder_of w) @ (if write_fails w then [] else p)\<rparr>"
    using Write_committed [OF BodyWrite.prems, of p] wr by simp
  then have com: "wroteHeader (recorder_of w')" using BodyWrite.prems by simp
  have ih: "(recorder_of (fst (run_body Write (k (n, e)) w')))\<lparr>Body := []\<rparr> = (recorder_of w')\<lparr>Body := []\<rparr> \<and>
   take (length (Body (recorder_of w'))) (Body (recorder_of (fst (run_body Write (k (n, e)) w')))) = Body (recorder_of w')"
    using BodyWrite.IH [of "k (n, e)" w'] com by simp
  have "take (length (Body (recorder_of w))) (take (length (Body (recorder_of w'))) (Body (recorder_of (fst (run_body Write (k (n, e)) w'))))) = Body (recorder_of w)"
    using ih rec by simp
  then have "take (length (Body (recorder_of w))) (Body (recorder_of (fst (run_body Write (k (n, e)) w')))) = Body (recorder_of w)"
    using rec by (simp add: min_def split: if_splits)
  then show ?case using wr ih rec by simp
qed

lemma Buffer_WriteTo_cases:
  "Buffer_WriteTo b w =
     (if b = [] then (w, None)
      else if write_fails w then (w, Some ''write failure'')
      else (fst (Write w b), None))"
proof (cases "write_fails w")
  case True
  then show ?thesis by (simp add: Buffer_WriteTo_def Write_fails)
next
  case False
  then have "snd (Write w b) = (length b, None)" by (simp add: Write_ok)
  then show ?thesis using False
    by (cases "Write w b") (simp add: Buffer_WriteTo_def)
qed

lemma Buffer_WriteTo_committed:
  assumes "wroteHeader (recorder_of w)"
  shows "(recorder_of (fst (Buffer_WriteTo b w)))\<lparr>Body := []\<rparr> = (recorder_of w)\<lparr>Body := []\<rparr>"
  using Write_committed [OF assms, of b] by (simp add: Buffer_WriteTo_cases)

lemma same_but_body:
  assumes "rw'\<lparr>Body := []\<rparr> = rw\<lparr>Body := []\<rparr>"
  shows "Code rw' = Code rw \<and> HeaderMap rw' = HeaderMap rw \<and> snapHeader rw' = snapHeader rw \<and>
         wroteHeader rw' = wroteHeader rw \<and> headerCalls rw' = headerCalls rw"
proof -
  have "Code (rw'\<lparr>Body := []\<rparr>) = Code (rw\<lparr>Body := []\<rparr>)"
       "HeaderMap (rw'\<lparr>Body := []\<rparr>) = HeaderMap (rw\<lparr>Body := []\<rparr>)"
       "snapHeader (rw'\<lparr>Body := []\<rparr>) = snapHeader (rw\<lparr>Body := []\<rparr>)"
       "wroteHeader (rw'\<lparr>Body := []\<rparr>) = wroteHeader (rw\<lparr>Body := []\<rparr>)"
       "headerCalls (rw'\<lparr>Body := []\<rparr>) = headerCalls (rw\<lparr>Body := []\<rparr>)"
    using assms by simp_all
  then show ?thesis by simp
qed

lemma run_body_calls:
  assumes "wroteHeader (recorder_of w)"
  shows "headerCalls (recorder_of (fst (run_body Write body w))) = headerCalls (recorder_of w)"
  using same_but_body [of "recorder_of (fst (run_body Write body w))" "recorder_of w"]
    run_body_committed [OF assms, of body]
  by simp

lemma Buffer_WriteTo_calls:
  assumes "wroteHeader (recorder_of w)"
  shows "headerCalls (recorder_of (fst (Buffer_WriteTo b w))) = headerCalls (recorder_of w)"
  using same_but_body [of "recorder_of (fst (Buffer_WriteTo b w))" "recorder_of w"]
    Buffer_WriteTo_committed [OF assms, of b]
  by simp

text \<open>
  \<open>http.Error\<close> with a valid code returns; on a writer with no status committed it
  commits the code and appends the message and a newline.
\<close>

lemma http_Error_eq:
  assumes "100 \<le> code" "code \<le> 999"
  shows "http_Error w err code = (Returned, snd (http_Error w err code))"
proof -
  define w3 where "w3 = Header_apply (Header_Set ''X-Content-Type-Options'' ''nosniff'')
      (Header_apply (Header_Set ''Content-Type'' ''text/plain; charset=utf-8'')
         (Header_apply (Header_Del ''Content-Length'') w))"
  define w4 where "w4 = snd (WriteHeader code w3)"
  have wh: "WriteHeader code w3 = (Returned, w4)"
    unfolding w4_def by (rule WriteHeader_valid_eq [OF assms])
  show ?thesis using wh by (simp add: http_Error_def Let_def w3_def)
qed

lemma recorder_of_http_Error:
  assumes "100 \<le> code" "code \<le> 999"
  shows "recorder_of (snd (http_Error w err code)) =
         (let rw1 = snd (ResponseRecorder_WriteHeader code
                      ((recorder_of w)\<lparr>HeaderMap := error_headers (HeaderMap (recorder_of w))\<rparr>))
          in rw1\<lparr>Body := Body rw1 @ (if write_fails w then [] else err @ [newline])\<rparr>)"
proof -
  define w3 where "w3 = Header_apply (Header_Set ''X-Content-Type-Options'' ''nosniff'')
      (Header_apply (Header_Set ''Content-Type'' ''text/plain; charset=utf-8'')
         (Header_apply (Header_Del ''Content-Length'') w))"
  have r3: "recorder_of w3 = (recorder_of w)\<lparr>HeaderMap := error_headers (HeaderMap (recorder_of w))\<rparr>"
    by (simp add: w3_def recorder_of_Header_apply error_headers_def)
  have f3: "write_fails w3 = write_fails w"
    by (simp add: w3_def write_fails_Header_apply)
  define w4 where "w4 = snd (WriteHeader code w3)"
  have wh: "WriteHeader code w3 = (Returned, w4)"
    unfolding w4_def by (rule WriteHeader_valid_eq [OF assms])
  have r4: "recorder_of w4 = snd (ResponseRecorder_WriteHeader code (recorder_of w3))"
    unfolding w4_def by (rule recorder_of_WriteHeader [OF assms])
  have c4: "wroteHeader (recorder_of w4)"
    unfolding w4_def by (rule wroteHeader_WriteHeader [OF assms])
  have f4: "write_fails w4 = write_fails w"
    unfolding w4_def using f3 by (simp add: write_fails_WriteHeader [OF assms])
  have "snd (http_Error w err code) = fst (Write w4 (err @ [newline]))"
    using wh by (simp add: http_Error_def Let_def w3_def fmt_Fprintln_def)
  then show ?thesis
    using Write_committed [OF c4, of "err @ [newline]"] r4 r3 f4 by (simp add: Let_def)
qed

lemma http_Error_fresh:
  assumes "\<not> wroteHeader (recorder_of w)" "100 \<le> code" "code \<le> 999"
  shows "recorder_of (snd (http_Error w err code)) =
           (recorder_of w)
             \<lparr>Code := code,
              HeaderMap := error_headers (HeaderMap (recorder_of w)),
              Body := Body (recorder_of w) @ (if write_fails w then [] else err @ [newline]),
              snapHeader := Some (error_headers (HeaderMap (recorder_of w))),
              wroteHeader := True,
              headerCalls := headerCalls (recorder_of w) @ [code]\<rparr>"
  using assms
  by (simp add: recorder_of_http_Error RR_WriteHeader_fresh Let_def)

lemma http_Error_calls:
  assumes "100 \<le> code" "code \<le> 999"
  shows "headerCalls (recorder_of (snd (http_Error w err code))) =
           headerCalls (recorder_of w) @ [code]"
  using assms
  by (simp add: recorder_of_http_Error RR_WriteHeader_calls Let_def)

lemma canonical_error_keys:
  "CanonicalMIMEHeaderKey ''Content-Length'' = ''Content-Length''"
  "CanonicalMIMEHeaderKey ''Content-Type'' = ''Content-Type''"
  "CanonicalMIMEHeaderKey ''X-Content-Type-Options'' = ''X-Content-Type-Options''"
  by (simp_all add: CanonicalMIMEHeaderKey_def validHeaderFieldByte_def toUpper_def toLower_def
        lowerLetters_def upperLetters_def Let_def)

lemma error_headers_apply:
  "error_headers h k =
     (if k = ''X-Content-Type-Options'' then Some [''nosniff'']
      else if k = ''Content-Type'' then Some [''text/plain; charset=utf-8'']
      else if k = ''Content-Length'' then None
      else h k)"
  by (simp add: error_headers_def Header_Set_def Header_Del_def canonical_error_keys)

text \<open>
  \<open>strings.Split\<close> at a byte: the pieces hold no separator, and joined with the
  separator they give the text back, in order.
\<close>

lemma strings_Split_nonempty: "strings_Split s sep \<noteq> []"
  by (induction s) (simp_all split: list.splits)

lemma strings_Join_Cons:
  "xs \<noteq> [] \<Longrightarrow> strings_Join (x # xs) sep = x @ sep # strings_Join xs sep"
  by (cases xs) simp_all

lemma strings_Join_push:
  "strings_Join ((c # l) # ls) sep = c # strings_Join (l # ls) sep"
  by (cases ls) simp_all

lemma strings_Join_Split: "strings_Join (strings_Split s sep) sep = s"
proof (induction s)
  case Nil
  then show ?case by simp
next
  case (Cons c s)
  show ?case
  proof (cases "c = sep")
    case True
    then show ?thesis
      using Cons.IH by (simp add: strings_Join_Cons strings_Split_nonempty)
  next
    case False
    obtain l ls where sp: "strings_Split s sep = l # ls"
      using strings_Split_nonempty [of s sep] by (cases "strings_Split s sep") auto
    then show ?thesis
      using Cons.IH False by (simp add: strings_Join_push)
  qed
qed

lemma strings_Split_no_sep: "l \<in> set (strings_Split s sep) \<Longrightarrow> sep \<notin> set l"
proof (induction s arbitrary: l)
  case Nil
  then show ?case by simp
next
  case (Cons c s)
  obtain x xs where sp: "strings_Split s sep = x # xs"
    using strings_Split_nonempty [of s sep] by (cases "strings_Split s sep") auto
  show ?case
  proof (cases "c = sep")
    case True
    then show ?thesis using Cons by auto
  next
    case False
    then have "l = c # x \<or> l \<in> set xs" using Cons.prems sp by simp
    then show ?thesis using Cons.IH sp False by auto
  qed
qed

section \<open>Properties of the dispatcher\<close>

text \<open>
  The result of \<open>HandlerFunc\<close> on each of its paths. The branches that propagate a
  panic of \<open>WriteHeader\<close> are never taken: the codes the dispatcher commits are 500 or a
  validated status.
\<close>

lemma HandlerFunc_invalid:
  assumes "fn r = resp" and "Status resp < 100 \<or> Status resp > 599"
  shows "HandlerFunc re fn w r env =
           (Returned,
            snd (http_Error w StatusText_InternalServerError StatusInternalServerError),
            Logger_Error (Responder_logger re)
              ''Handler returned a Response with invalid status code''
              (invalid_status_attrs r) env)"
proof -
  define wx where "wx = snd (http_Error w StatusText_InternalServerError StatusInternalServerError)"
  have "http_Error w StatusText_InternalServerError StatusInternalServerError = (Returned, wx)"
    unfolding wx_def by (rule http_Error_eq) (simp_all add: StatusInternalServerError_def)
  then show ?thesis using assms
    by (simp add: HandlerFunc_def Let_def)
qed

lemma HandlerFunc_nil:
  assumes "fn r = resp" and "100 \<le> Status resp" "Status resp \<le> 599" "WriteBody resp = None"
  shows "HandlerFunc re fn w r env =
           (Returned, snd (WriteHeader (Status resp) (copy_headers (Headers resp) w)), env)"
proof -
  define wx where "wx = snd (WriteHeader (Status resp) (copy_headers (Headers resp) w))"
  have "WriteHeader (Status resp) (copy_headers (Headers resp) w) = (Returned, wx)"
    unfolding wx_def by (rule WriteHeader_valid_eq) (use assms in simp_all)
  then show ?thesis using assms
    by (simp add: HandlerFunc_def Let_def)
qed

lemma HandlerFunc_stream:
  assumes "fn r = resp" and "100 \<le> Status resp" "Status resp \<le> 599" "WriteBody resp = Some body"
    and "\<not> Buffer re"
  shows "HandlerFunc re fn w r env =
           (case run_body Write body
                   (snd (WriteHeader (Status resp) (copy_headers (Headers resp) w))) of
              (w3, Some err) \<Rightarrow>
                (Returned, w3,
                 Logger_Error (Responder_logger re) ''Error streaming response body''
                   (write_error_attrs r err) env)
            | (w3, None) \<Rightarrow> (Returned, w3, env))"
proof -
  define wx where "wx = snd (WriteHeader (Status resp) (copy_headers (Headers resp) w))"
  have "WriteHeader (Status resp) (copy_headers (Headers resp) w) = (Returned, wx)"
    unfolding wx_def by (rule WriteHeader_valid_eq) (use assms in simp_all)
  then show ?thesis using assms
    by (simp add: HandlerFunc_def Let_def)
qed

lemma HandlerFunc_buffer_fail:
  assumes "fn r = resp" and "100 \<le> Status resp" "Status resp \<le> 599" "WriteBody resp = Some body"
    and "Buffer re" and "run_body Buffer_Write body [] = (buf, Some err)"
  shows "HandlerFunc re fn w r env =
           (Returned,
            snd (http_Error (copy_headers (Headers resp) w)
                   StatusText_InternalServerError StatusInternalServerError),
            Logger_Error (Responder_logger re) ''Error buffering response body''
              (write_error_attrs r err) env)"
proof -
  define wx where "wx = snd (http_Error (copy_headers (Headers resp) w) StatusText_InternalServerError StatusInternalServerError)"
  have "http_Error (copy_headers (Headers resp) w) StatusText_InternalServerError StatusInternalServerError = (Returned, wx)"
    unfolding wx_def by (rule http_Error_eq) (simp_all add: StatusInternalServerError_def)
  then show ?thesis using assms
    by (simp add: HandlerFunc_def Let_def)
qed

lemma HandlerFunc_buffer_flush:
  assumes "fn r = resp" and "100 \<le> Status resp" "Status resp \<le> 599" "WriteBody resp = Some body"
    and "Buffer re" and "run_body Buffer_Write body [] = (buf, None)"
  shows "HandlerFunc re fn w r env =
           (case Buffer_WriteTo buf
                   (snd (WriteHeader (Status resp) (copy_headers (Headers resp) w))) of
              (w3, Some err) \<Rightarrow>
                (Returned, w3,
                 Logger_Error (Responder_logger re) ''Error flushing buffered response''
                   (write_error_attrs r err) env)
            | (w3, None) \<Rightarrow> (Returned, w3, env))"
proof -
  define wx where "wx = snd (WriteHeader (Status resp) (copy_headers (Headers resp) w))"
  have "WriteHeader (Status resp) (copy_headers (Headers resp) w) = (Returned, wx)"
    unfolding wx_def by (rule WriteHeader_valid_eq) (use assms in simp_all)
  then show ?thesis using assms
    by (simp add: HandlerFunc_def Let_def)
qed

lemma contains_invalid_status:
  "strings_Contains ''Handler returned a Response with invalid status code'' ''invalid status''"
  by simp

lemma test_paths:
  "path_of (test_responder False) (invalidResponseHandlerFunc r) (Recorder NewRecorder) = InvalidStatus"
  "path_of (test_responder False) (erroredResponseHandlerFunc r) (Recorder NewRecorder) = StreamFail"
  "path_of (test_responder True) (erroredResponseHandlerFunc r) (Recorder NewRecorder) = BufferFail"
  "path_of (test_responder True) (simpleResponseHandlerFunc r)
     (errorResponseWriter (Recorder NewRecorder)) = FlushFail"
  "path_of (test_responder False) (noBodyResponseHandlerFunc r) (Recorder NewRecorder) = NilBody"
  "path_of (test_responder False) (simpleResponseHandlerFunc r) (Recorder NewRecorder) = StreamOK"
  "path_of (test_responder True) (simpleResponseHandlerFunc r) (Recorder NewRecorder) = BufferedOK"
proof -
  let ?hs = "[(''Content-Type'', [''text/plain; charset=utf-8''])]"
  let ?wcom = "snd (WriteHeader 200 (copy_headers ?hs (Recorder NewRecorder)))"
  have ok: "\<not> write_fails ?wcom" by (simp add: write_fails_commit)
  obtain w' n where wr: "Write ?wcom ''hello, world'' = (w', n, None)"
    using Write_ok [OF ok, of "''hello, world''"] by (cases "Write ?wcom ''hello, world''") auto
  show "path_of (test_responder False) (invalidResponseHandlerFunc r) (Recorder NewRecorder) = InvalidStatus"
    by (simp add: path_of_def invalidResponseHandlerFunc_def)
  show "path_of (test_responder False) (erroredResponseHandlerFunc r) (Recorder NewRecorder) = StreamFail"
    by (simp add: path_of_def erroredResponseHandlerFunc_def test_responder_def Let_def)
  show "path_of (test_responder True) (erroredResponseHandlerFunc r) (Recorder NewRecorder) = BufferFail"
    by (simp add: path_of_def erroredResponseHandlerFunc_def test_responder_def Let_def)
  show "path_of (test_responder True) (simpleResponseHandlerFunc r)
     (errorResponseWriter (Recorder NewRecorder)) = FlushFail"
    by (simp add: path_of_def simpleResponseHandlerFunc_def test_responder_def Let_def
          Buffer_Write_def Buffer_WriteTo_cases write_fails_commit)
  show "path_of (test_responder False) (noBodyResponseHandlerFunc r) (Recorder NewRecorder) = NilBody"
    by (simp add: path_of_def noBodyResponseHandlerFunc_def)
  show "path_of (test_responder False) (simpleResponseHandlerFunc r) (Recorder NewRecorder) = StreamOK"
    using wr
    by (simp add: path_of_def simpleResponseHandlerFunc_def test_responder_def Let_def)
  show "path_of (test_responder True) (simpleResponseHandlerFunc r) (Recorder NewRecorder) = BufferedOK"
    by (simp add: path_of_def simpleResponseHandlerFunc_def test_responder_def Let_def
          Buffer_Write_def Buffer_WriteTo_cases write_fails_commit)
qed

text \<open>
  Claim C1. When the response handler returns a status below 100 or above 599 (0
  included) and no status has been committed on the writer yet, the handler made by
  \<open>HandlerFunc\<close> returns normally, the client sees status 500, \<open>WriteHeader\<close> has been
  called once (with 500), and the world has one more log record: an error record of the
  responder's logger whose message contains "invalid status", with the attributes
  \<open>method\<close> and \<open>path\<close>. Nothing else is done: the writer is the one \<open>http.Error\<close>
  leaves, so the body holds the text of \<open>http.Error\<close> (nothing when writes fail) and
  the body procedure of the response is not run.
\<close>

theorem invalid_status_sends_500:
  assumes "fn r = resp"
    and "Status resp < 100 \<or> Status resp > 599"
    and "\<not> wroteHeader (recorder_of w)"
  shows "case HandlerFunc re fn w r env of (out, w', env') \<Rightarrow>
           out = Returned \<and>
           Code (recorder_of w') = 500 \<and>
           headerCalls (recorder_of w') = headerCalls (recorder_of w) @ [500] \<and>
           Body (recorder_of w') =
             Body (recorder_of w) @
               (if write_fails w then [] else ''Internal Server Error'' @ [newline]) \<and>
           w' = snd (http_Error w StatusText_InternalServerError StatusInternalServerError) \<and>
           env' = env\<lparr>logs := logs env @
                    [\<lparr>logger = Responder_logger re, level = LevelError,
                      message = ''Handler returned a Response with invalid status code'',
                      attrs = [(''method'', StringValue (Method r)),
                               (''path'', StringValue (Path (URL r)))]\<rparr>]\<rparr> \<and>
           strings_Contains (message (last (logs env'))) ''invalid status''"
proof -
  have rec: "recorder_of (snd (http_Error w ''Internal Server Error'' StatusInternalServerError)) =
           (recorder_of w)
             \<lparr>Code := 500,
              HeaderMap := error_headers (HeaderMap (recorder_of w)),
              Body := Body (recorder_of w) @ (if write_fails w then [] else ''Internal Server Error'' @ [newline]),
              snapHeader := Some (error_headers (HeaderMap (recorder_of w))),
              wroteHeader := True,
              headerCalls := headerCalls (recorder_of w) @ [500]\<rparr>"
    using http_Error_fresh [OF assms(3), of 500 "''Internal Server Error''"]
    by (simp add: StatusInternalServerError_def)
  show ?thesis
    using contains_invalid_status
    by (simp add: HandlerFunc_invalid [where fn = fn and r = r, OF assms(1) assms(2)] rec Logger_Error_def invalid_status_attrs_def StatusText_InternalServerError_def)
qed

text \<open>
  The test case "err - invalid status": status 0 on a new recorder.
\<close>

theorem invalid_status_sends_500_witness:
  "Status \<lparr>Status = 0, Headers = [], WriteBody = None\<rparr> < 100 \<and>
   \<not> wroteHeader (recorder_of (Recorder NewRecorder)) \<and>
   (case HandlerFunc \<lparr>Logger = Some (slog_New 0), Buffer = False\<rparr>
           (\<lambda>r. \<lparr>Status = 0, Headers = [], WriteBody = None\<rparr>)
           (Recorder NewRecorder) (NewRequest ''GET'' ''/'' []) world0 of
      (out, w', env') \<Rightarrow>
        out = Returned \<and> Code (recorder_of w') = 500 \<and>
        headerCalls (recorder_of w') = [500] \<and>
        Body (recorder_of w') = ''Internal Server Error'' @ [newline] \<and>
        logs env' =
          [\<lparr>logger = slog_New 0, level = LevelError,
            message = ''Handler returned a Response with invalid status code'',
            attrs = [(''method'', StringValue ''GET''), (''path'', StringValue ''/'')]\<rparr>])"
  using invalid_status_sends_500
          [where fn = "\<lambda>r. \<lparr>Status = 0, Headers = [], WriteBody = None\<rparr>"
             and r = "NewRequest ''GET'' ''/'' []"
             and resp = "\<lparr>Status = 0, Headers = [], WriteBody = None\<rparr>"
             and w = "Recorder NewRecorder"
             and re = "\<lparr>Logger = Some (slog_New 0), Buffer = False\<rparr>" and env = world0]
  by (simp add: NewRecorder_def NewRequest_def world0_def Responder_logger_def split: prod.splits)

text \<open>
  Claim C2. Take a response with a valid status and a body procedure, on a writer with
  no status committed, and let \<open>wcom\<close> be the writer after the headers are copied and
  the status is committed. If in streaming mode the body procedure fails against
  \<open>wcom\<close>, or in buffered mode it succeeds against the buffer and the flush of the
  buffer to \<open>wcom\<close> fails, then the handler returns normally, the client status is
  the status of the response, the world has one more log record (an error record with
  the attributes \<open>path\<close> and \<open>error\<close>), and no error response is attempted:
  \<open>WriteHeader\<close> has been called once, with the status of the response, and the header
  map and the headers sent are the ones copied from the response.
\<close>

theorem post_commit_failure_keeps_status:
  assumes "fn r = resp"
    and "100 \<le> Status resp" and "Status resp \<le> 599"
    and "WriteBody resp = Some body"
    and "\<not> wroteHeader (recorder_of w)"
    and "wcom = snd (WriteHeader (Status resp) (copy_headers (Headers resp) w))"
    and "(\<not> Buffer re \<and> run_body Write body wcom = (wfin, Some err) \<and>
          msg = ''Error streaming response body'') \<or>
         (Buffer re \<and> run_body Buffer_Write body [] = (buf, None) \<and>
          Buffer_WriteTo buf wcom = (wfin, Some err) \<and>
          msg = ''Error flushing buffered response'')"
  shows "HandlerFunc re fn w r env =
           (Returned, wfin,
            env\<lparr>logs := logs env @
              [\<lparr>logger = Responder_logger re, level = LevelError, message = msg,
                attrs = [(''path'', StringValue (Path (URL r))),
                         (''error'', StringValue err)]\<rparr>]\<rparr>) \<and>
         Code (recorder_of wfin) = Status resp \<and>
         headerCalls (recorder_of wfin) = headerCalls (recorder_of w) @ [Status resp] \<and>
         HeaderMap (recorder_of wfin) = Header_AddAll (Headers resp) (HeaderMap (recorder_of w)) \<and>
         snapHeader (recorder_of wfin) =
           Some (Header_AddAll (Headers resp) (HeaderMap (recorder_of w)))"
proof -
  have valid: "100 \<le> Status resp" "Status resp \<le> 999" using assms(2,3) by simp_all
  have r2: "recorder_of wcom =
           (recorder_of w)
             \<lparr>Code := Status resp,
              HeaderMap := Header_AddAll (Headers resp) (HeaderMap (recorder_of w)),
              snapHeader := Some (Header_AddAll (Headers resp) (HeaderMap (recorder_of w))),
              wroteHeader := True,
              headerCalls := headerCalls (recorder_of w) @ [Status resp]\<rparr>"
    unfolding assms(6) by (rule commit_after_copy [OF assms(5) valid])
  then have c2: "wroteHeader (recorder_of wcom)" by simp
  have r3: "(recorder_of wfin)\<lparr>Body := []\<rparr> = (recorder_of wcom)\<lparr>Body := []\<rparr>"
    using assms(7) run_body_committed [OF c2, of body] Buffer_WriteTo_committed [OF c2, of buf]
    by auto
  have res: "HandlerFunc re fn w r env =
           (Returned, wfin,
            Logger_Error (Responder_logger re) msg (write_error_attrs r err) env)"
  proof (cases "Buffer re")
    case False
    then show ?thesis
      using assms(7) HandlerFunc_stream [where fn = fn and r = r, OF assms(1-4) False, of w env]
      by (simp add: assms(6))
  next
    case True
    then show ?thesis
      using assms(7)
        HandlerFunc_buffer_flush [where fn = fn and r = r and buf = buf, OF assms(1-4) True, of w env]
      by (simp add: assms(6))
  qed
  show ?thesis
    using same_but_body [OF r3] r2
    by (simp add: res Logger_Error_def write_error_attrs_def)
qed

text \<open>
  The test cases "err - stream write error" and "err - buffer flush error".
\<close>

theorem post_commit_failure_keeps_status_witness:
  "(case HandlerFunc \<lparr>Logger = Some (slog_New 0), Buffer = False\<rparr> erroredResponseHandlerFunc
           (Recorder NewRecorder) (NewRequest ''GET'' ''/'' []) world0 of
      (out, w', env') \<Rightarrow>
        out = Returned \<and> Code (recorder_of w') = 200 \<and>
        headerCalls (recorder_of w') = [200] \<and>
        logs env' =
          [\<lparr>logger = slog_New 0, level = LevelError,
            message = ''Error streaming response body'',
            attrs = [(''path'', StringValue ''/''),
                     (''error'', StringValue ''fail on purpose'')]\<rparr>]) \<and>
   (case HandlerFunc \<lparr>Logger = Some (slog_New 0), Buffer = True\<rparr> simpleResponseHandlerFunc
           (errorResponseWriter (Recorder NewRecorder)) (NewRequest ''GET'' ''/'' []) world0 of
      (out, w', env') \<Rightarrow>
        out = Returned \<and> Code (recorder_of w') = 200 \<and>
        headerCalls (recorder_of w') = [200] \<and>
        logs env' =
          [\<lparr>logger = slog_New 0, level = LevelError,
            message = ''Error flushing buffered response'',
            attrs = [(''path'', StringValue ''/''),
                     (''error'', StringValue ''write failure'')]\<rparr>])"
proof -
  let ?r = "NewRequest ''GET'' ''/'' []"
  let ?hs = "[(''Content-Type'', [''text/plain; charset=utf-8''])]"
  let ?w2 = "snd (WriteHeader 200 (copy_headers ?hs (Recorder NewRecorder)))"
  let ?v2 = "snd (WriteHeader 200 (copy_headers ?hs (errorResponseWriter (Recorder NewRecorder))))"
  have fails: "write_fails ?v2"
    by (simp add: write_fails_WriteHeader write_fails_copy_headers)
  have streaming:
    "HandlerFunc \<lparr>Logger = Some (slog_New 0), Buffer = False\<rparr> erroredResponseHandlerFunc
       (Recorder NewRecorder) ?r world0 =
       (Returned, ?w2,
        world0\<lparr>logs := logs world0 @
          [\<lparr>logger = Responder_logger \<lparr>Logger = Some (slog_New 0), Buffer = False\<rparr>,
            level = LevelError, message = ''Error streaming response body'',
            attrs = [(''path'', StringValue (Path (URL ?r))),
                     (''error'', StringValue ''fail on purpose'')]\<rparr>]\<rparr>) \<and>
     Code (recorder_of ?w2) = 200 \<and>
     headerCalls (recorder_of ?w2) = headerCalls (recorder_of (Recorder NewRecorder)) @ [200]"
    using post_commit_failure_keeps_status
            [where fn = erroredResponseHandlerFunc and r = ?r
               and resp = "erroredResponseHandlerFunc ?r"
               and body = "BodyReturn (Some ''fail on purpose'')"
               and w = "Recorder NewRecorder" and wcom = ?w2 and wfin = ?w2
               and re = "\<lparr>Logger = Some (slog_New 0), Buffer = False\<rparr>"
               and err = "''fail on purpose''" and msg = "''Error streaming response body''"
               and env = world0]
    by (simp add: erroredResponseHandlerFunc_def NewRecorder_def)
  have flushing:
    "HandlerFunc \<lparr>Logger = Some (slog_New 0), Buffer = True\<rparr> simpleResponseHandlerFunc
       (errorResponseWriter (Recorder NewRecorder)) ?r world0 =
       (Returned, ?v2,
        world0\<lparr>logs := logs world0 @
          [\<lparr>logger = Responder_logger \<lparr>Logger = Some (slog_New 0), Buffer = True\<rparr>,
            level = LevelError, message = ''Error flushing buffered response'',
            attrs = [(''path'', StringValue (Path (URL ?r))),
                     (''error'', StringValue ''write failure'')]\<rparr>]\<rparr>) \<and>
     Code (recorder_of ?v2) = 200 \<and>
     headerCalls (recorder_of ?v2) =
       headerCalls (recorder_of (errorResponseWriter (Recorder NewRecorder))) @ [200]"
    using post_commit_failure_keeps_status
            [where fn = simpleResponseHandlerFunc and r = ?r
               and resp = "simpleResponseHandlerFunc ?r"
               and body = "BodyWrite ''hello, world'' (\<lambda>(n, err). BodyReturn err)"
               and w = "errorResponseWriter (Recorder NewRecorder)" and wcom = ?v2 and wfin = ?v2
               and re = "\<lparr>Logger = Some (slog_New 0), Buffer = True\<rparr>"
               and buf = "''hello, world''"
               and err = "''write failure''" and msg = "''Error flushing buffered response''"
               and env = world0]
      fails
    by (simp add: simpleResponseHandlerFunc_def NewRecorder_def Buffer_Write_def
          Buffer_WriteTo_cases)
  show ?thesis
    using streaming flushing
    by (simp add: NewRecorder_def NewRequest_def world0_def Responder_logger_def)
qed

text \<open>
  Claim C3, as the code has it. In buffered mode, when the body procedure fails against
  the buffer and no status has been committed on the writer, the handler returns
  normally, the client sees status 500, and the world has one more log record, the error
  record "Error buffering response body" with the attributes \<open>path\<close> and \<open>error\<close>.
  The body the client sees is not empty: it is the text \<open>http.Error\<close> writes,
  "Internal Server Error" and a newline (nothing when writes to the client fail).
  None of the bytes the body procedure wrote to the buffer are in it.
\<close>

theorem buffered_body_failure_sends_500:
  assumes "fn r = resp"
    and "100 \<le> Status resp" and "Status resp \<le> 599"
    and "WriteBody resp = Some body"
    and "Buffer re"
    and "run_body Buffer_Write body [] = (buf, Some err)"
    and "\<not> wroteHeader (recorder_of w)"
  shows "case HandlerFunc re fn w r env of (out, w', env') \<Rightarrow>
           out = Returned \<and>
           Code (recorder_of w') = 500 \<and>
           headerCalls (recorder_of w') = headerCalls (recorder_of w) @ [500] \<and>
           Body (recorder_of w') =
             Body (recorder_of w) @
               (if write_fails w then [] else ''Internal Server Error\<newline>'') \<and>
           env' = env\<lparr>logs := logs env @
                    [\<lparr>logger = Responder_logger re, level = LevelError,
                      message = ''Error buffering response body'',
                      attrs = [(''path'', StringValue (Path (URL r))),
                               (''error'', StringValue err)]\<rparr>]\<rparr>"
proof -
  let ?w1 = "copy_headers (Headers resp) w"
  have fresh: "\<not> wroteHeader (recorder_of ?w1)"
    using assms(7) by (simp add: recorder_of_copy_headers)
  have rec: "recorder_of (snd (http_Error ?w1 ''Internal Server Error'' StatusInternalServerError)) =
           (recorder_of ?w1)
             \<lparr>Code := 500,
              HeaderMap := error_headers (HeaderMap (recorder_of ?w1)),
              Body := Body (recorder_of ?w1) @
                 (if write_fails ?w1 then [] else ''Internal Server Error'' @ [newline]),
              snapHeader := Some (error_headers (HeaderMap (recorder_of ?w1))),
              wroteHeader := True,
              headerCalls := headerCalls (recorder_of ?w1) @ [500]\<rparr>"
    using http_Error_fresh [OF fresh, of 500 "''Internal Server Error''"]
    by (simp add: StatusInternalServerError_def)
  show ?thesis
    by (simp add: HandlerFunc_buffer_fail [where fn = fn and r = r, OF assms(1-6)] rec
          recorder_of_copy_headers write_fails_copy_headers
          Logger_Error_def write_error_attrs_def StatusText_InternalServerError_def newline_def)
qed

text \<open>
  The test case "err - buffer write error".
\<close>

theorem buffered_body_failure_sends_500_witness:
  "case HandlerFunc \<lparr>Logger = Some (slog_New 0), Buffer = True\<rparr> erroredResponseHandlerFunc
          (Recorder NewRecorder) (NewRequest ''GET'' ''/'' []) world0 of
     (out, w', env') \<Rightarrow>
       out = Returned \<and> Code (recorder_of w') = 500 \<and>
       headerCalls (recorder_of w') = [500] \<and>
       Body (recorder_of w') = ''Internal Server Error\<newline>'' \<and>
       logs env' =
         [\<lparr>logger = slog_New 0, level = LevelError,
           message = ''Error buffering response body'',
           attrs = [(''path'', StringValue ''/''),
                    (''error'', StringValue ''fail on purpose'')]\<rparr>]"
  using buffered_body_failure_sends_500
          [where fn = erroredResponseHandlerFunc and r = "NewRequest ''GET'' ''/'' []"
             and resp = "erroredResponseHandlerFunc (NewRequest ''GET'' ''/'' [])"
             and body = "BodyReturn (Some ''fail on purpose'')"
             and re = "\<lparr>Logger = Some (slog_New 0), Buffer = True\<rparr>"
             and buf = "[]" and err = "''fail on purpose''"
             and w = "Recorder NewRecorder" and env = world0]
  by (simp add: erroredResponseHandlerFunc_def NewRecorder_def NewRequest_def world0_def
        Responder_logger_def split: prod.splits)

text \<open>
  Claim C3 says that the body the client sees is empty on this path. For the test case
  "err - buffer write error" on a new recorder it is not.
\<close>

theorem buffered_body_failure_body_counterexample:
  "Body (recorder_of (fst (snd
     (HandlerFunc \<lparr>Logger = Some (slog_New 0), Buffer = True\<rparr> erroredResponseHandlerFunc
        (Recorder NewRecorder) (NewRequest ''GET'' ''/'' []) world0)))) \<noteq> []"
proof -
  let ?r = "NewRequest ''GET'' ''/'' []"
  let ?w1 = "copy_headers (Headers (erroredResponseHandlerFunc ?r)) (Recorder NewRecorder)"
  have hf: "HandlerFunc \<lparr>Logger = Some (slog_New 0), Buffer = True\<rparr> erroredResponseHandlerFunc
        (Recorder NewRecorder) ?r world0 =
        (Returned,
         snd (http_Error ?w1 StatusText_InternalServerError StatusInternalServerError),
         Logger_Error (Responder_logger \<lparr>Logger = Some (slog_New 0), Buffer = True\<rparr>)
           ''Error buffering response body'' (write_error_attrs ?r ''fail on purpose'') world0)"
    by (rule HandlerFunc_buffer_fail [where body = "BodyReturn (Some ''fail on purpose'')" and buf = "[]"])
       (simp_all add: erroredResponseHandlerFunc_def)
  have "Body (recorder_of (snd (http_Error ?w1 StatusText_InternalServerError StatusInternalServerError)))
        = Body (recorder_of ?w1) @ StatusText_InternalServerError @ [newline]"
    by (simp add: recorder_of_http_Error StatusInternalServerError_def Let_def
          ResponseRecorder_WriteHeader_def write_fails_copy_headers)
  then show ?thesis by (simp add: hf)
qed

text \<open>
  Claim C4. On every path through the handler made by \<open>HandlerFunc\<close>, for every
  responder, response handler, writer, request and world: the handler returns normally;
  \<open>WriteHeader\<close> is called exactly once on the recorder (with 500 on the invalid-status
  path and on the buffered body-failure path, with the status of the response
  otherwise); the log records the world had are kept; and exactly one record, an error
  record, is added on each of the four error paths, none on the three others.
\<close>

theorem one_commit_one_log:
  "case HandlerFunc re fn w r env of (out, w', env') \<Rightarrow>
     out = Returned \<and>
     headerCalls (recorder_of w') =
       headerCalls (recorder_of w) @ [committed_status (path_of re (fn r) w) (fn r)] \<and>
     take (length (logs env)) (logs env') = logs env \<and>
     map level (drop (length (logs env)) (logs env')) =
       (if error_path (path_of re (fn r) w) then [LevelError] else [])"
proof -
  define resp where "resp = fn r"
  have fr: "fn r = resp" by (simp add: resp_def)
  define wcom where "wcom = snd (WriteHeader (Status resp) (copy_headers (Headers resp) w))"
  show ?thesis
  proof (cases "Status resp < 100 \<or> Status resp > 599")
    case True
    then have p: "path_of re resp w = InvalidStatus" by (simp add: path_of_def)
    show ?thesis
      using p
      by (simp add: fr HandlerFunc_invalid [where fn = fn and r = r, OF fr True]
            http_Error_calls StatusInternalServerError_def Logger_Error_def)
  next
    case False
    then have valid: "100 \<le> Status resp" "Status resp \<le> 599" by simp_all
    have valid': "100 \<le> Status resp" "Status resp \<le> 999" using valid by simp_all
    have calls: "headerCalls (recorder_of wcom) = headerCalls (recorder_of w) @ [Status resp]"
      unfolding wcom_def by (rule calls_after_commit [OF valid'])
    have com: "wroteHeader (recorder_of wcom)"
      unfolding wcom_def by (rule wroteHeader_WriteHeader [OF valid'])
    show ?thesis
    proof (cases "WriteBody resp")
      case None
      then have p: "path_of re resp w = NilBody" using False by (simp add: path_of_def)
      show ?thesis
        using p calls
        by (simp add: fr HandlerFunc_nil [where fn = fn and r = r, OF fr valid None] wcom_def)
    next
      case (Some body)
      show ?thesis
      proof (cases "Buffer re")
        case False
        obtain wfin e where rb: "run_body Write body wcom = (wfin, e)"
          by (cases "run_body Write body wcom") auto
        have p: "path_of re resp w = (case e of None \<Rightarrow> StreamOK | Some err \<Rightarrow> StreamFail)"
          using \<open>\<not> (Status resp < 100 \<or> Status resp > 599)\<close> Some False rb
          by (simp add: path_of_def wcom_def [symmetric])
        have c: "headerCalls (recorder_of wfin) = headerCalls (recorder_of w) @ [Status resp]"
          using run_body_calls [OF com, of body] rb calls by simp
        show ?thesis
          using p c rb
          by (cases e)
             (simp_all add: fr HandlerFunc_stream [where fn = fn and r = r, OF fr valid Some False]
                wcom_def [symmetric] Logger_Error_def)
      next
        case True
        obtain buf e where rb: "run_body Buffer_Write body [] = (buf, e)"
          by (cases "run_body Buffer_Write body []") auto
        show ?thesis
        proof (cases e)
          case (Some err)
          have p: "path_of re resp w = BufferFail"
            using \<open>\<not> (Status resp < 100 \<or> Status resp > 599)\<close> \<open>WriteBody resp = Some body\<close>
              True rb Some
            by (simp add: path_of_def)
          show ?thesis
            using p
            by (simp add: fr
                  HandlerFunc_buffer_fail [where fn = fn and r = r, OF fr valid
                    \<open>WriteBody resp = Some body\<close> True rb [unfolded Some]]
                  http_Error_calls StatusInternalServerError_def Logger_Error_def
                  recorder_of_copy_headers)
        next
          case None
          obtain wfin e' where fl: "Buffer_WriteTo buf wcom = (wfin, e')"
            by (cases "Buffer_WriteTo buf wcom") auto
          have p: "path_of re resp w = (case e' of None \<Rightarrow> BufferedOK | Some err \<Rightarrow> FlushFail)"
            using \<open>\<not> (Status resp < 100 \<or> Status resp > 599)\<close> \<open>WriteBody resp = Some body\<close>
              True rb None fl
            by (simp add: path_of_def wcom_def [symmetric])
          have c: "headerCalls (recorder_of wfin) = headerCalls (recorder_of w) @ [Status resp]"
            using Buffer_WriteTo_calls [OF com, of buf] fl calls by simp
          show ?thesis
            using p c fl
            by (cases e')
               (simp_all add: fr
                  HandlerFunc_buffer_flush [where fn = fn and r = r, OF fr valid
                    \<open>WriteBody resp = Some body\<close> True rb [unfolded None]]
                  wcom_def [symmetric] Logger_Error_def)
        qed
      qed
    qed
  qed
qed

text \<open>
  The seven cases of \<open>TestResponder_HandlerFunc\<close>, one for each path.
\<close>

theorem one_commit_one_log_witness:
  "(case HandlerFunc (test_responder False) invalidResponseHandlerFunc (Recorder NewRecorder)
           (NewRequest ''GET'' ''/'' []) world0 of
      (out, w', env') \<Rightarrow>
        headerCalls (recorder_of w') = [500] \<and> map level (logs env') = [LevelError]) \<and>
   (case HandlerFunc (test_responder False) erroredResponseHandlerFunc (Recorder NewRecorder)
           (NewRequest ''GET'' ''/'' []) world0 of
      (out, w', env') \<Rightarrow>
        headerCalls (recorder_of w') = [200] \<and> map level (logs env') = [LevelError]) \<and>
   (case HandlerFunc (test_responder True) erroredResponseHandlerFunc (Recorder NewRecorder)
           (NewRequest ''GET'' ''/'' []) world0 of
      (out, w', env') \<Rightarrow>
        headerCalls (recorder_of w') = [500] \<and> map level (logs env') = [LevelError]) \<and>
   (case HandlerFunc (test_responder True) simpleResponseHandlerFunc
           (errorResponseWriter (Recorder NewRecorder)) (NewRequest ''GET'' ''/'' []) world0 of
      (out, w', env') \<Rightarrow>
        headerCalls (recorder_of w') = [200] \<and> map level (logs env') = [LevelError]) \<and>
   (case HandlerFunc (test_responder False) noBodyResponseHandlerFunc (Recorder NewRecorder)
           (NewRequest ''GET'' ''/'' []) world0 of
      (out, w', env') \<Rightarrow>
        headerCalls (recorder_of w') = [204] \<and> logs env' = []) \<and>
   (case HandlerFunc (test_responder False) simpleResponseHandlerFunc (Recorder NewRecorder)
           (NewRequest ''GET'' ''/'' []) world0 of
      (out, w', env') \<Rightarrow>
        headerCalls (recorder_of w') = [200] \<and> logs env' = []) \<and>
   (case HandlerFunc (test_responder True) simpleResponseHandlerFunc (Recorder NewRecorder)
           (NewRequest ''GET'' ''/'' []) world0 of
      (out, w', env') \<Rightarrow>
        headerCalls (recorder_of w') = [200] \<and> logs env' = [])"
proof -
  let ?r = "NewRequest ''GET'' ''/'' []"
  have c0: "headerCalls NewRecorder = []" "logs world0 = []"
    by (simp_all add: NewRecorder_def world0_def)
  have s: "Status (invalidResponseHandlerFunc ?r) = 0"
          "Status (erroredResponseHandlerFunc ?r) = 200"
          "Status (simpleResponseHandlerFunc ?r) = 200"
          "Status (noBodyResponseHandlerFunc ?r) = 204"
    by (simp_all add: invalidResponseHandlerFunc_def erroredResponseHandlerFunc_def
          simpleResponseHandlerFunc_def noBodyResponseHandlerFunc_def)
  show ?thesis
    using one_commit_one_log [where re = "test_responder False" and fn = invalidResponseHandlerFunc
            and w = "Recorder NewRecorder" and r = ?r and env = world0]
      one_commit_one_log [where re = "test_responder False" and fn = erroredResponseHandlerFunc
            and w = "Recorder NewRecorder" and r = ?r and env = world0]
      one_commit_one_log [where re = "test_responder True" and fn = erroredResponseHandlerFunc
            and w = "Recorder NewRecorder" and r = ?r and env = world0]
      one_commit_one_log [where re = "test_responder True" and fn = simpleResponseHandlerFunc
            and w = "errorResponseWriter (Recorder NewRecorder)" and r = ?r and env = world0]
      one_commit_one_log [where re = "test_responder False" and fn = noBodyResponseHandlerFunc
            and w = "Recorder NewRecorder" and r = ?r and env = world0]
      one_commit_one_log [where re = "test_responder False" and fn = simpleResponseHandlerFunc
            and w = "Recorder NewRecorder" and r = ?r and env = world0]
      one_commit_one_log [where re = "test_responder True" and fn = simpleResponseHandlerFunc
            and w = "Recorder NewRecorder" and r = ?r and env = world0]
    by (simp add: test_paths c0 s split: prod.splits)
qed

text \<open>
  Claim C9. For a response with a valid status and no body procedure the handler
  returns normally, the world is unchanged (no log record), no body byte is written,
  the header map holds the headers of the response added to the ones it had, and
  \<open>WriteHeader\<close> is called once, with the status of the response. On a writer with no
  status committed the client sees that status, and the headers sent with it are the
  header map after the copy: the headers are copied before the status is committed.
\<close>

theorem nil_body_sends_status_only:
  assumes "fn r = resp"
    and "100 \<le> Status resp" and "Status resp \<le> 599"
    and "WriteBody resp = None"
  shows "case HandlerFunc re fn w r env of (out, w', env') \<Rightarrow>
           out = Returned \<and>
           env' = env \<and>
           Body (recorder_of w') = Body (recorder_of w) \<and>
           headerCalls (recorder_of w') = headerCalls (recorder_of w) @ [Status resp] \<and>
           HeaderMap (recorder_of w') = Header_AddAll (Headers resp) (HeaderMap (recorder_of w)) \<and>
           (\<not> wroteHeader (recorder_of w) \<longrightarrow>
              Code (recorder_of w') = Status resp \<and>
              snapHeader (recorder_of w') =
                Some (Header_AddAll (Headers resp) (HeaderMap (recorder_of w))))"
proof -
  have valid: "100 \<le> Status resp" "Status resp \<le> 999" using assms(2,3) by simp_all
  show ?thesis
    using valid
    by (simp add: HandlerFunc_nil [where fn = fn and r = r, OF assms]
          recorder_of_WriteHeader [OF valid] recorder_of_copy_headers
          ResponseRecorder_WriteHeader_def Let_def)
qed

text \<open>
  The test case "ok - body nil".
\<close>

theorem nil_body_sends_status_only_witness:
  "case HandlerFunc \<lparr>Logger = Some (slog_New 0), Buffer = False\<rparr>
          (\<lambda>r. \<lparr>Status = 204, Headers = [(''X-Custom'', [''no body''])], WriteBody = None\<rparr>)
          (Recorder NewRecorder) (NewRequest ''GET'' ''/'' []) world0 of
     (out, w', env') \<Rightarrow>
       out = Returned \<and> env' = world0 \<and> Body (recorder_of w') = [] \<and>
       headerCalls (recorder_of w') = [204] \<and> Code (recorder_of w') = 204 \<and>
       snapHeader (recorder_of w') =
         Some (Header_AddAll [(''X-Custom'', [''no body''])] Map.empty)"
  using nil_body_sends_status_only
          [where fn = "\<lambda>r. \<lparr>Status = 204, Headers = [(''X-Custom'', [''no body''])], WriteBody = None\<rparr>"
             and r = "NewRequest ''GET'' ''/'' []"
             and resp = "\<lparr>Status = 204, Headers = [(''X-Custom'', [''no body''])], WriteBody = None\<rparr>"
             and re = "\<lparr>Logger = Some (slog_New 0), Buffer = False\<rparr>"
             and w = "Recorder NewRecorder" and env = world0]
  by (simp add: NewRecorder_def split: prod.splits)

text \<open>
  Claim C10. On the invalid-status path the headers of the response are not copied:
  the result of the handler is the same whatever the headers of the response are; the
  header map is the one the writer had, changed by \<open>http.Error\<close> alone; and every key
  but the three that \<open>http.Error\<close> deletes or sets keeps the values it had.
\<close>

theorem invalid_status_discards_headers:
  assumes "fn r = resp"
    and "Status resp < 100 \<or> Status resp > 599"
  shows "HandlerFunc re fn w r env =
           HandlerFunc re (\<lambda>x. (fn x)\<lparr>Headers := hs\<rparr>) w r env \<and>
         (case HandlerFunc re fn w r env of (out, w', env') \<Rightarrow>
            HeaderMap (recorder_of w') = error_headers (HeaderMap (recorder_of w)) \<and>
            (\<forall>k. k \<noteq> ''Content-Length'' \<and> k \<noteq> ''Content-Type'' \<and>
                  k \<noteq> ''X-Content-Type-Options'' \<longrightarrow>
                  HeaderMap (recorder_of w') k = HeaderMap (recorder_of w) k))"
proof -
  have inv: "Status (resp\<lparr>Headers := hs\<rparr>) < 100 \<or> Status (resp\<lparr>Headers := hs\<rparr>) > 599"
    using assms(2) by simp
  have eq: "(\<lambda>x. (fn x)\<lparr>Headers := hs\<rparr>) r = resp\<lparr>Headers := hs\<rparr>"
    using assms(1) by simp
  have hm: "HeaderMap (recorder_of (snd (http_Error w StatusText_InternalServerError
                StatusInternalServerError))) = error_headers (HeaderMap (recorder_of w))"
    by (simp add: recorder_of_http_Error StatusInternalServerError_def Let_def
          ResponseRecorder_WriteHeader_def)
  show ?thesis
    by (simp add: HandlerFunc_invalid [where fn = fn and r = r, OF assms]
          HandlerFunc_invalid [where fn = "\<lambda>x. (fn x)\<lparr>Headers := hs\<rparr>" and r = r, OF eq inv]
          hm error_headers_apply)
qed

text \<open>
  A response with status 600 and a header \<open>X-Custom\<close> on a new recorder: the header
  does not reach the recorder.
\<close>

theorem invalid_status_discards_headers_witness:
  "HeaderMap (recorder_of (fst (snd
     (HandlerFunc \<lparr>Logger = None, Buffer = False\<rparr>
        (\<lambda>r. \<lparr>Status = 600, Headers = [(''X-Custom'', [''dropped''])], WriteBody = None\<rparr>)
        (Recorder NewRecorder) (NewRequest ''GET'' ''/'' []) world0)))) ''X-Custom'' = None"
  using invalid_status_discards_headers
          [where fn = "\<lambda>r. \<lparr>Status = 600, Headers = [(''X-Custom'', [''dropped''])], WriteBody = None\<rparr>"
             and r = "NewRequest ''GET'' ''/'' []"
             and resp = "\<lparr>Status = 600, Headers = [(''X-Custom'', [''dropped''])], WriteBody = None\<rparr>"
             and re = "\<lparr>Logger = None, Buffer = False\<rparr>"
             and w = "Recorder NewRecorder" and env = world0 and hs = "[]"]
  by (simp add: NewRecorder_def error_headers_apply split: prod.splits)

section \<open>Properties of the middleware\<close>

subsection \<open>Queue and Stack\<close>

text \<open>
  The index loops of \<open>Queue\<close> and \<open>Stack\<close> are folds over the list of wrappers and
  over its reverse. A chain of \<open>sign\<close> wrappers around a handler that writes sends the
  messages in the order of the nesting, outermost first.
\<close>

lemma Queue_fold: "Queue ms h = fold (\<lambda>m h'. m h') ms h"
proof -
  have "fold (\<lambda>i h'. (ms ! i) h') [0..<length ms] h = fold (\<lambda>m h'. m h') (map ((!) ms) [0..<length ms]) h"
    by (simp add: fold_map comp_def)
  then show ?thesis by (simp add: Queue_def map_nth)
qed

lemma Stack_fold: "Stack ms h = fold (\<lambda>m h'. m h') (rev ms) h"
proof -
  have "fold (\<lambda>i h'. (ms ! (length ms - 1 - i)) h') [0..<length ms] h
        = fold (\<lambda>m h'. m h') (map (\<lambda>i. ms ! (length ms - 1 - i)) [0..<length ms]) h"
    by (simp add: fold_map comp_def)
  moreover have "map (\<lambda>i. ms ! (length ms - 1 - i)) [0..<length ms] = rev ms"
    by (rule nth_equalityI) (auto simp: rev_nth)
  ultimately show ?thesis by (simp add: Stack_def)
qed

lemma Queue_foldr: "Queue ms h = foldr (\<lambda>m h'. m h') (rev ms) h"
  by (simp add: Queue_fold foldr_conv_fold)

lemma Stack_foldr: "Stack ms h = foldr (\<lambda>m h'. m h') ms h"
  by (simp add: Stack_fold foldr_conv_fold)

lemma served_body_signs:
  "served_body (foldr (\<lambda>m h'. m h') (map sign msgs) (write_handler core)) w r env =
     Body (recorder_of w) @ (if write_fails w then [] else concat msgs @ core)"
proof (induction msgs arbitrary: w)
  case Nil
  then show ?case by (simp add: served_body_def write_handler_def Write_Body)
next
  case (Cons m msgs)
  have "served_body (foldr (\<lambda>m h'. m h') (map sign (m # msgs)) (write_handler core)) w r env =
        served_body (foldr (\<lambda>m h'. m h') (map sign msgs) (write_handler core))
          (fst (Write w m)) r env"
    by (simp add: served_body_def sign_def)
  then show ?case
    by (simp add: Cons.IH Write_Body Write_keeps_fails)
qed

text \<open>
  Claim C6. \<open>Queue [w1, ..., wn] h\<close> is \<open>wn (... (w1 h))\<close> and
  \<open>Stack [w1, ..., wn] h\<close> is \<open>w1 (... (wn h))\<close>. With wrappers that write a message
  before they call the next handler, around a core that writes, the client receives the
  messages last to first and then the core's bytes under \<open>Queue\<close>, and first to last
  and then the core's bytes under \<open>Stack\<close>; for the messages \<open>m1_\<close> and \<open>m2_\<close> and
  the core \<open>core\<close> of \<open>TestQueueAndStack\<close> that is \<open>m2_m1_core\<close> and \<open>m1_m2_core\<close>.
\<close>

theorem queue_stack_order:
  "Queue ms h = foldr (\<lambda>m h'. m h') (rev ms) h \<and>
   Stack ms h = foldr (\<lambda>m h'. m h') ms h \<and>
   served_body (Queue (map sign msgs) (write_handler core)) w r env =
     Body (recorder_of w) @ (if write_fails w then [] else concat (rev msgs) @ core) \<and>
   served_body (Stack (map sign msgs) (write_handler core)) w r env =
     Body (recorder_of w) @ (if write_fails w then [] else concat msgs @ core) \<and>
   served_body (Queue [sign ''m1_'', sign ''m2_''] (write_handler ''core''))
     (Recorder NewRecorder) r env = ''m2_m1_core'' \<and>
   served_body (Stack [sign ''m1_'', sign ''m2_''] (write_handler ''core''))
     (Recorder NewRecorder) r env = ''m1_m2_core''"
proof -
  have q: "served_body (Queue (map sign ns) (write_handler c)) v r env =
     Body (recorder_of v) @ (if write_fails v then [] else concat (rev ns) @ c)" for ns v c
    using served_body_signs [of "rev ns" c v r env]
    by (simp add: Queue_foldr rev_map)
  have s: "served_body (Stack (map sign ns) (write_handler c)) v r env =
     Body (recorder_of v) @ (if write_fails v then [] else concat ns @ c)" for ns v c
    using served_body_signs [of ns c v r env]
    by (simp add: Stack_foldr)
  have q2: "served_body (Queue [sign ''m1_'', sign ''m2_''] (write_handler ''core''))
     (Recorder NewRecorder) r env = ''m2_m1_core''"
    using q [of "[''m1_'', ''m2_'']" "''core''" "Recorder NewRecorder"] by (simp add: NewRecorder_def)
  have s2: "served_body (Stack [sign ''m1_'', sign ''m2_''] (write_handler ''core''))
     (Recorder NewRecorder) r env = ''m1_m2_core''"
    using s [of "[''m1_'', ''m2_'']" "''core''" "Recorder NewRecorder"] by (simp add: NewRecorder_def)
  show ?thesis
    using q s q2 s2 by (simp add: Queue_foldr Stack_foldr)
qed

text \<open>
  Claim C7, as the code has it. \<open>Queue\<close> applies the first wrapper to the terminal
  handler, so the first wrapper is the innermost one (it runs last on the way in), and
  the last wrapper supplied is the outermost one.
\<close>

theorem queue_first_is_innermost:
  "Queue (m # ms) h = Queue ms (m h) \<and> Queue (ms @ [m]) h = m (Queue ms h)"
  by (simp add: Queue_fold)

text \<open>
  Claim C7 says that \<open>Queue\<close> makes the first wrapper the outermost one. For the
  wrappers of \<open>TestQueueAndStack\<close> the client receives \<open>m2_m1_core\<close>; with the first
  wrapper outermost it would receive \<open>m1_m2_core\<close>.
\<close>

theorem queue_first_outermost_counterexample:
  "served_body (Queue [sign ''m1_'', sign ''m2_''] (write_handler ''core''))
     (Recorder NewRecorder) (NewRequest ''GET'' ''/'' []) world0 = ''m2_m1_core'' \<and>
   served_body (sign ''m1_'' (sign ''m2_'' (write_handler ''core'')))
     (Recorder NewRecorder) (NewRequest ''GET'' ''/'' []) world0 = ''m1_m2_core''"
proof -
  have "served_body (foldr (\<lambda>m h'. m h') (map sign [''m2_'', ''m1_'']) (write_handler ''core''))
          (Recorder NewRecorder) (NewRequest ''GET'' ''/'' []) world0 = ''m2_m1_core''"
    by (simp only: served_body_signs) (simp add: NewRecorder_def)
  moreover
  have "served_body (foldr (\<lambda>m h'. m h') (map sign [''m1_'', ''m2_'']) (write_handler ''core''))
          (Recorder NewRecorder) (NewRequest ''GET'' ''/'' []) world0 = ''m1_m2_core''"
    by (simp only: served_body_signs) (simp add: NewRecorder_def)
  ultimately show ?thesis by (simp add: Queue_foldr)
qed

subsection \<open>RecoverAndHandle\<close>

text \<open>
  Claim C5, as the code has it. When the wrapped handler panics with a value whose text
  is \<open>v\<close>, leaving the writer as \<open>w'\<close> and the world as \<open>env'\<close>, the barrier adds one
  error record to the log, given to the logger passed in or to the default logger when
  none is, with the attribute \<open>error\<close> holding \<open>v\<close> and the attribute \<open>stack\<close> holding
  the lines of the stack trace in order, and then runs the fallback handler on \<open>w'\<close>:
  what the fallback writes comes after what the wrapped handler has already sent. When
  the wrapped handler has left the writer as it was, the client receives what the
  fallback produces on that writer. When the wrapped handler returns, the barrier
  returns what the handler returned, with no record added. The lines of the stack trace,
  joined by newlines, are the text of the trace.
\<close>

theorem panic_barrier:
  "(h w r env = (Panicked v, w', env') \<longrightarrow>
      RecoverAndHandle fallback lg h w r env =
        fallback w' r
          (env'\<lparr>logs := logs env' @
             [\<lparr>logger = resolve_logger lg, level = LevelError,
               message = ''PANIC caught by middleware.PanicBroker'',
               attrs = [(''error'', StringValue v),
                        (''stack'', AnyValue (strings_Split (goroutine_stack env') newline))]\<rparr>]\<rparr>)) \<and>
   (h w r env = (Panicked v, w, env') \<longrightarrow>
      fst (snd (RecoverAndHandle fallback lg h w r env)) =
        fst (snd (fallback w r
          (Logger_Error (resolve_logger lg) ''PANIC caught by middleware.PanicBroker''
             (panic_attrs v env') env')))) \<and>
   (h w r env = (Returned, w', env') \<longrightarrow>
      RecoverAndHandle fallback lg h w r env = (Returned, w', env')) \<and>
   strings_Join (strings_Split (goroutine_stack env') newline) newline = goroutine_stack env'"
  by (simp add: RecoverAndHandle_def resolve_logger_def Logger_Error_def panic_attrs_def
        strings_Join_Split Let_def)

text \<open>
  The cases of \<open>TestRecoverAndHandle\<close>: a handler that panics before it writes, with
  no logger given, and a handler that writes \<open>ok\<close>.
\<close>

lemma status_handler_fresh:
  "status_handler 500 s (Recorder NewRecorder) r env =
     (Returned,
      Recorder (NewRecorder\<lparr>Code := 500, Body := s, snapHeader := Some Map.empty,
                 wroteHeader := True, headerCalls := [500]\<rparr>),
      env)"
  by (simp add: status_handler_def NewRecorder_def ResponseRecorder_WriteHeader_def
        ResponseRecorder_Write_def Let_def)

theorem panic_barrier_witness:
  "(case RecoverAndHandle (status_handler 500 ''caught panic'') None
           (panic_handler ''reached panic'')
           (Recorder NewRecorder) (NewRequest ''GET'' ''/'' ''id=foo'')
           (world0\<lparr>goroutine_stack := ''goroutine 7 [running]:\<newline>main.handler()''\<rparr>) of
      (out, w', env') \<Rightarrow>
        out = Returned \<and> Code (recorder_of w') = 500 \<and>
        Body (recorder_of w') = ''caught panic'' \<and>
        logs env' =
          [\<lparr>logger = slog_Default, level = LevelError,
            message = ''PANIC caught by middleware.PanicBroker'',
            attrs = [(''error'', StringValue ''reached panic''),
                     (''stack'', AnyValue [''goroutine 7 [running]:'', ''main.handler()''])]\<rparr>]) \<and>
   RecoverAndHandle (status_handler 500 ''caught panic'') (Some (slog_New 0))
     (write_handler ''ok'') (Recorder NewRecorder) (NewRequest ''GET'' ''/'' ''id=10'') world0 =
   write_handler ''ok'' (Recorder NewRecorder) (NewRequest ''GET'' ''/'' ''id=10'') world0"
proof -
  let ?env = "world0\<lparr>goroutine_stack := ''goroutine 7 [running]:\<newline>main.handler()''\<rparr>"
  have a: "panic_handler ''reached panic'' (Recorder NewRecorder)
             (NewRequest ''GET'' ''/'' ''id=foo'') ?env =
           (Panicked ''reached panic'', Recorder NewRecorder, ?env)"
    by (simp add: panic_handler_def)
  have b: "write_handler ''ok'' (Recorder NewRecorder) (NewRequest ''GET'' ''/'' ''id=10'') world0 =
           (Returned, fst (Write (Recorder NewRecorder) ''ok''), world0)"
    by (simp add: write_handler_def)
  have p: "RecoverAndHandle (status_handler 500 ''caught panic'') None
             (panic_handler ''reached panic'') (Recorder NewRecorder)
             (NewRequest ''GET'' ''/'' ''id=foo'') ?env =
           status_handler 500 ''caught panic'' (Recorder NewRecorder)
             (NewRequest ''GET'' ''/'' ''id=foo'')
             (?env\<lparr>logs := logs ?env @
                [\<lparr>logger = resolve_logger None, level = LevelError,
                  message = ''PANIC caught by middleware.PanicBroker'',
                  attrs = [(''error'', StringValue ''reached panic''),
                           (''stack'', AnyValue (strings_Split (goroutine_stack ?env) newline))]\<rparr>]\<rparr>)"
    using panic_barrier [where h = "panic_handler ''reached panic''" and w = "Recorder NewRecorder"
            and r = "NewRequest ''GET'' ''/'' ''id=foo''" and env = ?env
            and v = "''reached panic''" and w' = "Recorder NewRecorder" and env' = ?env
            and fallback = "status_handler 500 ''caught panic''" and lg = None,
            THEN conjunct1, THEN mp, OF a] .
  have q: "RecoverAndHandle (status_handler 500 ''caught panic'') (Some (slog_New 0))
             (write_handler ''ok'') (Recorder NewRecorder) (NewRequest ''GET'' ''/'' ''id=10'') world0 =
           (Returned, fst (Write (Recorder NewRecorder) ''ok''), world0)"
    using panic_barrier [where h = "write_handler ''ok''" and w = "Recorder NewRecorder"
            and r = "NewRequest ''GET'' ''/'' ''id=10''" and env = world0
            and w' = "fst (Write (Recorder NewRecorder) ''ok'')" and env' = world0
            and fallback = "status_handler 500 ''caught panic''" and lg = "Some (slog_New 0)",
            THEN conjunct2, THEN conjunct2, THEN conjunct1, THEN mp, OF b] .
  show ?thesis
    unfolding p q b
    by (simp add: status_handler_fresh resolve_logger_def world0_def newline_def)
qed

text \<open>
  Claim C5 says that whenever the wrapped handler panics, the status and body of the
  fallback are what reaches the client. A handler that commits status 200 and writes
  \<open>partial\<close> before it panics leaves the client with status 200 and the body
  \<open>partialcaught panic\<close>, where the fallback alone gives status 500 and the body
  \<open>caught panic\<close>.
\<close>

theorem panic_after_write_counterexample:
  "Code (recorder_of (fst (snd
     (RecoverAndHandle (status_handler 500 ''caught panic'') None
        (writing_panic_handler 200 ''partial'' ''reached panic'')
        (Recorder NewRecorder) (NewRequest ''GET'' ''/'' []) world0)))) = 200 \<and>
   Body (recorder_of (fst (snd
     (RecoverAndHandle (status_handler 500 ''caught panic'') None
        (writing_panic_handler 200 ''partial'' ''reached panic'')
        (Recorder NewRecorder) (NewRequest ''GET'' ''/'' []) world0)))) = ''partialcaught panic'' \<and>
   Code (recorder_of (fst (snd
     (status_handler 500 ''caught panic'' (Recorder NewRecorder)
        (NewRequest ''GET'' ''/'' []) world0)))) = 500 \<and>
   Body (recorder_of (fst (snd
     (status_handler 500 ''caught panic'' (Recorder NewRecorder)
        (NewRequest ''GET'' ''/'' []) world0)))) = ''caught panic''"
  by (simp add: RecoverAndHandle_def writing_panic_handler_def status_handler_def
        NewRecorder_def ResponseRecorder_WriteHeader_def ResponseRecorder_Write_def Let_def)

subsection \<open>AccessLogger\<close>

text \<open>
  \<open>captureWriter.WriteHeader\<close> takes the code 0 for 200, records the code it passes
  on, and \<open>Write\<close> through a \<open>captureWriter\<close> leaves the recorded code alone. When the
  wrapped handler returns, \<open>AccessLogger\<close> adds one info record with the seven
  attributes of the source, after the effects of the handler; when it panics, the panic
  goes on and no record is added.
\<close>

lemma captureWriter_zero_is_OK:
  "WriteHeader 0 (captureWriter w st) = WriteHeader 200 (captureWriter w st)"
  by simp

lemma captureWriter_WriteHeader_status:
  "captureWriter_status (snd (WriteHeader c (captureWriter w st))) = (if c = 0 then 200 else c)"
  by (simp add: Let_def split: prod.splits)

lemma captureWriter_Write_status:
  "captureWriter_status (fst (Write (captureWriter w st) p)) = st"
  by (simp split: prod.splits)

lemma AccessLogger_returned:
  assumes "h (captureWriter w 0) r env = (Returned, rw', env')"
  shows "AccessLogger lg prefix h w r env =
           (Returned, captureWriter_ResponseWriter rw',
            env'\<lparr>logs := logs env' @
              [\<lparr>logger = resolve_logger lg, level = LevelInfo, message = prefix,
                attrs = [(''src'', StringValue (RemoteAddr r)),
                         (''method'', StringValue (Method r)),
                         (''dest'', StringValue (URL_RequestURI (URL r))),
                         (''proto'', StringValue (Proto r)),
                         (''status'', IntValue (captureWriter_status rw')),
                         (''user-agent'', StringValue (Header_Get ''User-Agent'' (Header r))),
                         (''duration'', DurationValue (clock env' - clock env))]\<rparr>]\<rparr>)"
  using assms
  by (simp add: AccessLogger_def Let_def resolve_logger_def Logger_Info_def access_attrs_def)

lemma AccessLogger_panicked:
  assumes "h (captureWriter w 0) r env = (Panicked v, rw', env')"
  shows "AccessLogger lg prefix h w r env = (Panicked v, captureWriter_ResponseWriter rw', env')"
  using assms by (simp add: AccessLogger_def Let_def)

lemma AccessLogger_explicit_status:
  "logs (snd (snd (AccessLogger (Some (slog_New 0)) ''access'' (status_handler 0 [])
      (Recorder NewRecorder) (NewRequest ''GET'' ''/'' ''a=1'') world0))) =
     [\<lparr>logger = slog_New 0, level = LevelInfo, message = ''access'',
       attrs = [(''src'', StringValue ''192.0.2.1:1234''),
                (''method'', StringValue ''GET''),
                (''dest'', StringValue ''/?a=1''),
                (''proto'', StringValue ''HTTP/1.1''),
                (''status'', IntValue 200),
                (''user-agent'', StringValue []),
                (''duration'', DurationValue 0)]\<rparr>]"
proof -
  have "status_handler 0 [] (captureWriter (Recorder NewRecorder) 0)
          (NewRequest ''GET'' ''/'' ''a=1'') world0 =
        (Returned,
         captureWriter (Recorder (NewRecorder\<lparr>Code := 200, wroteHeader := True,
            snapHeader := Some Map.empty, headerCalls := [200]\<rparr>)) 200,
         world0)"
    by (simp add: status_handler_def NewRecorder_def ResponseRecorder_WriteHeader_def
          ResponseRecorder_Write_def Let_def)
  then show ?thesis
    by (simp add: AccessLogger_returned resolve_logger_def NewRequest_def world0_def
          URL_RequestURI_def Header_Get_def)
qed

text \<open>
  Claim C8 at the core handler of \<open>TestQueueAndStack\<close>, which writes a body and never
  calls \<open>WriteHeader\<close>: the recorder commits the implicit status 200 and the client
  sees 200, but the field \<open>status\<close> of the capture writer keeps its zero value, and the
  one record that \<open>AccessLogger\<close> adds has \<open>status\<close> 0.
\<close>

theorem access_logger_unset_status:
  "case AccessLogger (Some (slog_New 0)) ''access'' (write_handler ''core'')
          (Recorder NewRecorder) (NewRequest ''GET'' ''/'' []) world0 of
     (out, w', env') \<Rightarrow>
       out = Returned \<and>
       Code (recorder_of w') = 200 \<and>
       wroteHeader (recorder_of w') \<and>
       headerCalls (recorder_of w') = [200] \<and>
       Body (recorder_of w') = ''core'' \<and>
       logs env' =
         [\<lparr>logger = slog_New 0, level = LevelInfo, message = ''access'',
           attrs = [(''src'', StringValue ''192.0.2.1:1234''),
                    (''method'', StringValue ''GET''),
                    (''dest'', StringValue ''/''),
                    (''proto'', StringValue ''HTTP/1.1''),
                    (''status'', IntValue 0),
                    (''user-agent'', StringValue []),
                    (''duration'', DurationValue 0)]\<rparr>]"
proof -
  have "write_handler ''core'' (captureWriter (Recorder NewRecorder) 0)
          (NewRequest ''GET'' ''/'' []) world0 =
        (Returned,
         captureWriter (Recorder (NewRecorder\<lparr>Code := 200, Body := ''core'', wroteHeader := True,
            snapHeader := Some Map.empty, headerCalls := [200]\<rparr>)) 0,
         world0)"
    by (simp add: write_handler_def NewRecorder_def ResponseRecorder_WriteHeader_def
          ResponseRecorder_Write_def Let_def)
  then show ?thesis
    by (simp add: AccessLogger_returned resolve_logger_def NewRequest_def world0_def
          NewRecorder_def URL_RequestURI_def Header_Get_def)
qed

end
